theory Spec2Isabelle
  imports Main
begin

section \<open>Errors, asynchronous programs and the event timeline\<close>

text \<open>
  A JavaScript exception value, with the parts the code reads back:
  \<^verbatim>\<open>error.message\<close>, \<^verbatim>\<open>error.body.message\<close> and \<^verbatim>\<open>error.body.errors[i].message / .code\<close>.
  A missing property is \<open>None\<close>.
\<close>

record sub_error =
  se_message :: "string option"
  se_code :: "string option"

record error_body =
  eb_message :: "string option"
  eb_errors :: "sub_error list option"

record js_error =
  err_name :: string
  err_message :: "string option"
  err_body :: "error_body option"

text \<open>\<^verbatim>\<open>new Error(msg)\<close>.\<close>

definition new_Error :: "string \<Rightarrow> js_error" where
  "new_Error msg = \<lparr>err_name = ''Error'', err_message = Some msg, err_body = None\<rparr>"

text \<open>
  Reading a property of \<^verbatim>\<open>null\<close> raises a \<^verbatim>\<open>TypeError\<close>; the message text is the
  engine's and is kept in V8's wording,
  \<^verbatim>\<open>Cannot read properties of null (reading 'customerId')\<close>, the property name between
  single quotes (character \<open>0x27\<close>).
\<close>

definition null_TypeError :: "string \<Rightarrow> js_error" where
  "null_TypeError prop =
     \<lparr>err_name = ''TypeError'',
      err_message =
        Some (''Cannot read properties of null (reading '' @ [CHR 0x27] @ prop @ [CHR 0x27]
              @ '')''),
      err_body = None\<rparr>"

text \<open>Truthiness of an optional string: \<^verbatim>\<open>undefined\<close> and \<^verbatim>\<open>""\<close> are falsy.\<close>

definition truthy :: "string option \<Rightarrow> bool" where
  "truthy v = (case v of None \<Rightarrow> False | Some s \<Rightarrow> s \<noteq> [])"

text \<open>\<^verbatim>\<open>a || b\<close> on optional strings, and \<^verbatim>\<open>a || 'literal'\<close>.\<close>

definition js_or :: "string option \<Rightarrow> string option \<Rightarrow> string option" where
  "js_or a b = (if truthy a then a else b)"

definition or_default :: "string option \<Rightarrow> string \<Rightarrow> string" where
  "or_default a d = (case a of None \<Rightarrow> d | Some s \<Rightarrow> if s \<noteq> [] then s else d)"

subsection \<open>Backend and provider data\<close>

record money =
  currencyCode :: string
  centAmount :: int

record cart =
  cart_id :: string
  cart_version :: int
  customerId :: "string option"
  anonymousId :: "string option"

datatype transaction_type = AUTHORIZATION | CHARGE

text \<open>\<^verbatim>\<open>PaymentOutcome.AUTHORIZED\<close> and the literal \<^verbatim>\<open>'Success'\<close>.\<close>

datatype transaction_state = PaymentOutcome_AUTHORIZED | Success

record transaction_draft =
  tx_type :: transaction_type
  tx_amount :: money
  tx_state :: transaction_state
  tx_interactionId :: string

record customer_reference =
  ref_typeId :: string
  ref_id :: string

record payment_draft =
  amountPlanned :: money
  interfaceId :: string
  paymentInterface :: string
  paymentMethod :: string
  pd_customer :: "customer_reference option"
  pd_anonymousId :: "string option"
  transactions :: "transaction_draft list"

record payment =
  payment_id :: string

record order_draft =
  od_cart_id :: string
  od_cart_typeId :: string
  od_shipmentState :: string
  od_orderState :: string
  od_version :: int
  od_paymentState :: string

record order =
  order_id :: string
  orderNumber :: "string option"
  orderState :: "string option"
  paymentState :: "string option"
  shipmentState :: "string option"

text \<open>\<^verbatim>\<open>PayPalCaptureResponseSchemaDTO\<close>, with the fields the service and the route fill.\<close>

record capture_response =
  cr_orderId :: string
  cr_status :: string
  cr_paymentReference :: "string option"
  cr_ctOrderId :: "string option"
  cr_orderNumber :: "string option"
  cr_merchantReturnUrl :: "string option"

text \<open>What \<^verbatim>\<open>api.getPayment()\<close> and \<^verbatim>\<open>api.createSubscription()\<close> return, and what
  \<^verbatim>\<open>stripe.confirmStripePayment\<close> takes.\<close>

record payment_response =
  pr_cartId :: "string option"
  pr_clientSecret :: "string option"
  pr_billingAddress :: "string option"
  pr_merchantReturnUrl :: "string option"
  pr_paymentReference :: string

record subscription_response =
  sr_payment :: payment_response
  sr_subscriptionId :: string

record setup_intent_response =
  si_clientSecret :: "string option"
  si_merchantReturnUrl :: "string option"
  si_billingAddress :: "string option"

record subscription_from_setup =
  ss_subscriptionId :: string
  ss_paymentReference :: string

record confirm_payment_intent =
  cpi_paymentIntentId :: string
  cpi_paymentReference :: string

record confirm_subscription_payment =
  csp_subscriptionId :: string
  csp_paymentReference :: string
  csp_paymentIntentId :: "string option"

text \<open>\<^verbatim>\<open>PaymentResult\<close>, the value handed to the completion callback.\<close>

record payment_result =
  isSuccess :: bool
  res_paymentReference :: "string option"
  res_paymentIntent :: string
  res_orderId :: "string option"
  res_orderNumber :: "string option"

text \<open>The provider order request of \<^verbatim>\<open>actions.order.create\<close>. The amount
  \<^verbatim>\<open>(config.amount / 100).toFixed(2)\<close> is kept as the number of hundredths it denotes.
  The code computes it in floating point from a whole number of minor units; the two
  agree while the quotient is represented to better than half a hundredth (amounts up to
  \<open>10\<^sup>1\<^sup>5\<close> minor units) and part beyond that. The test \<^verbatim>\<open>parseFloat(totalValue) <= 0\<close>
  is \<open>amount \<le> 0\<close> for every whole amount.\<close>

record paypal_order_request =
  po_intent :: string
  po_reference_id :: string
  po_description :: string
  po_currency_code :: string
  po_value_hundredths :: int

subsection \<open>Events\<close>

text \<open>
  Everything the code does to the outside is one event of a single timeline: a request
  to the commerce backend (server side), a request of the browser to the processor, a
  call into a provider SDK, a callback of the embedding page, a log line, a redirect.
\<close>

datatype event =
    CtGetCart "string option"
  | CtGetPaymentAmount "cart option"
  | CtCreatePayment payment_draft
  | CtAddPayment string int string
  | CtOrdersPost order_draft
  | Log string string
  | ApiGetPayment
  | ApiConfirmPaymentIntent confirm_payment_intent
  | ApiCreateSetupIntent
  | ApiCreateSubscriptionFromSetupIntent string
  | ApiCreateSubscription
  | ApiConfirmSubscriptionPayment confirm_subscription_payment
  | ApiCapturePayPalOrder string
  | ElementsSubmit
  | StripeConfirmPayment payment_response
  | StripeConfirmSetupIntent setup_intent_response
  | PayPalOrderCreate paypal_order_request
  | PayPalOrderCapture
  | OnComplete payment_result
  | OnError js_error
  | Console string string
  | Redirect string "(string \<times> string) list"

record 'w st =
  world :: 'w
  trace :: "event list"

subsection \<open>Programs\<close>

text \<open>
  An \<^verbatim>\<open>async\<close> function is a program over the state: it returns \<open>Inr\<close> its value or
  \<open>Inl\<close> the exception it raised (its promise rejected), and the state after it.
\<close>

type_synonym ('s, 'a) prog = "'s \<Rightarrow> (js_error + 'a) \<times> 's"

definition ret :: "'a \<Rightarrow> ('s, 'a) prog" where
  "ret x = (\<lambda>s. (Inr x, s))"

definition throw :: "js_error \<Rightarrow> ('s, 'a) prog" where
  "throw e = (\<lambda>s. (Inl e, s))"

definition then_do :: "('s, 'a) prog \<Rightarrow> ('a \<Rightarrow> ('s, 'b) prog) \<Rightarrow> ('s, 'b) prog" where
  "then_do m k = (\<lambda>s. case m s of (Inl e, s') \<Rightarrow> (Inl e, s') | (Inr x, s') \<Rightarrow> k x s')"

definition try_catch :: "('s, 'a) prog \<Rightarrow> (js_error \<Rightarrow> ('s, 'a) prog) \<Rightarrow> ('s, 'a) prog" where
  "try_catch m h = (\<lambda>s. case m s of (Inl e, s') \<Rightarrow> h e s' | (Inr x, s') \<Rightarrow> (Inr x, s'))"

text \<open>Appending an event; and a request to a collaborator outside the repository, whose
  answer is a function of the world: the request is put on the timeline, then answered.\<close>

definition emit :: "event \<Rightarrow> (('w, 'z) st_scheme, unit) prog" where
  "emit ev = (\<lambda>s. (Inr (), s\<lparr>trace := trace s @ [ev]\<rparr>))"

definition request ::
  "event \<Rightarrow> ('w \<Rightarrow> (js_error + 'a) \<times> 'w) \<Rightarrow> (('w, 'z) st_scheme, 'a) prog" where
  "request ev f =
     (\<lambda>s. case f (world s) of (r, w') \<Rightarrow> (r, s\<lparr>world := w', trace := trace s @ [ev]\<rparr>))"

text \<open>\<^verbatim>\<open>callback?.(x)\<close>: an absent callback is skipped.\<close>

definition opt_call :: "('a \<Rightarrow> ('s, unit) prog) option \<Rightarrow> 'a \<Rightarrow> ('s, unit) prog" where
  "opt_call cb x = (case cb of None \<Rightarrow> ret () | Some f \<Rightarrow> f x)"

text \<open>The events a program added to the timeline.\<close>

definition emitted :: "('w, 'z) st_scheme \<Rightarrow> ('w, 'y) st_scheme \<Rightarrow> event list" where
  "emitted s s' = drop (length (trace s)) (trace s')"

text \<open>\<open>after m s Q\<close>: the result of running \<open>m\<close> from \<open>s\<close> and the state it leaves satisfy \<open>Q\<close>.\<close>

definition after :: "('s, 'a) prog \<Rightarrow> 's \<Rightarrow> ((js_error + 'a) \<Rightarrow> 's \<Rightarrow> bool) \<Rightarrow> bool" where
  "after m s Q = (case m s of (r, s') \<Rightarrow> Q r s')"

section \<open>Processor: order creation client (order-client.ts)\<close>

record 's ct_cart_service =
  getCart :: "string option \<Rightarrow> ('s, cart option) prog"
  getPaymentAmount :: "cart option \<Rightarrow> ('s, money) prog"
  addPayment :: "string \<Rightarrow> int \<Rightarrow> string \<Rightarrow> ('s, cart) prog"

record 's ct_payment_service =
  createPayment_ct :: "payment_draft \<Rightarrow> ('s, payment) prog"

text \<open>\<^verbatim>\<open>paymentSDK\<close>: its cart service and \<^verbatim>\<open>ctAPI.client.orders().post(...).execute()\<close>.\<close>

record 's payment_sdk =
  sdk_ctCartService :: "'s ct_cart_service"
  orders_post :: "order_draft \<Rightarrow> ('s, order) prog"

fun join_with :: "string \<Rightarrow> string list \<Rightarrow> string" where
  "join_with sep [] = []"
| "join_with sep [x] = x"
| "join_with sep (x # y # ys) = x @ sep @ join_with sep (y # ys)"

text \<open>\<^verbatim>\<open>e.message || e.code\<close>, as \<^verbatim>\<open>join\<close> prints it (\<^verbatim>\<open>undefined\<close> prints empty).\<close>

definition sub_error_text :: "sub_error \<Rightarrow> string" where
  "sub_error_text e = (case js_or (se_message e) (se_code e) of None \<Rightarrow> [] | Some s \<Rightarrow> s)"

definition order_error :: "js_error \<Rightarrow> js_error" where
  "order_error error =
     (let errorMessage =
            or_default
              (js_or (case err_body error of None \<Rightarrow> None | Some b \<Rightarrow> eb_message b)
                     (err_message error))
              ''Unknown error creating order'';
          errorDetails =
            (case err_body error of None \<Rightarrow> []
             | Some b \<Rightarrow> (case eb_errors b of None \<Rightarrow> [] | Some es \<Rightarrow> es));
          detailedMessage =
            (if length errorDetails > 0
             then errorMessage @ '': '' @ join_with '', '' (map sub_error_text errorDetails)
             else errorMessage)
      in new_Error (''Failed to create order from cart: '' @ detailedMessage))"

definition createOrderFromCart ::
  "(('w, 'z) st_scheme) payment_sdk \<Rightarrow> cart \<Rightarrow> (('w, 'z) st_scheme, order) prog" where
  "createOrderFromCart paymentSDK cart =
     try_catch
       (then_do (getCart (sdk_ctCartService paymentSDK) (Some (cart_id cart))) (\<lambda>latestCart.
          case latestCart of
            None \<Rightarrow> throw (null_TypeError ''version'')
          | Some latest \<Rightarrow>
              orders_post paymentSDK
                \<lparr>od_cart_id = cart_id cart, od_cart_typeId = ''cart'',
                 od_shipmentState = ''Pending'', od_orderState = ''Open'',
                 od_version = cart_version latest, od_paymentState = ''Paid''\<rparr>))
       (\<lambda>error.
          then_do (emit (Console ''error'' ''Failed to create order from cart:'')) (\<lambda>_.
          throw (order_error error)))"

section \<open>Processor: alternative-wallet settlement (paypal-payment.service.ts)\<close>

record request_context =
  getCartIdFromContext :: "string option"
  getPaymentInterfaceFromContext :: "string option"
  getMerchantReturnUrlFromContext :: "string option"

record config =
  merchantReturnUrl :: "string option"

record 's paypal_payment_service =
  ctCartService :: "'s ct_cart_service"
  ctPaymentService :: "'s ct_payment_service"

definition log_info :: "string \<Rightarrow> (('w, 'z) st_scheme, unit) prog" where
  "log_info msg = emit (Log ''info'' msg)"

definition log_error :: "string \<Rightarrow> (('w, 'z) st_scheme, unit) prog" where
  "log_error msg = emit (Log ''error'' msg)"

text \<open>The payment draft both variants of \<^verbatim>\<open>capturePayPalOrder\<close> build;
  \<open>paymentMethod\<close> is the \<^verbatim>\<open>method\<close> of \<^verbatim>\<open>paymentMethodInfo\<close>.\<close>

definition paypal_payment_draft ::
  "request_context \<Rightarrow> cart \<Rightarrow> money \<Rightarrow> string \<Rightarrow> payment_draft" where
  "paypal_payment_draft ctx cart amount paypalOrderId =
     \<lparr>amountPlanned = amount,
      interfaceId = paypalOrderId,
      paymentInterface = or_default (getPaymentInterfaceFromContext ctx) ''paypal'',
      paymentMethod = ''paypal'',
      pd_customer =
        (case customerId cart of
           None \<Rightarrow> None
         | Some c \<Rightarrow> if c \<noteq> [] then Some \<lparr>ref_typeId = ''customer'', ref_id = c\<rparr> else None),
      pd_anonymousId =
        (if truthy (customerId cart) then None
         else if truthy (anonymousId cart) then anonymousId cart else None),
      transactions =
        [\<lparr>tx_type = AUTHORIZATION, tx_amount = amount,
          tx_state = PaymentOutcome_AUTHORIZED, tx_interactionId = paypalOrderId\<rparr>,
         \<lparr>tx_type = CHARGE, tx_amount = amount,
          tx_state = Success, tx_interactionId = paypalOrderId\<rparr>]\<rparr>"

text \<open>\<^verbatim>\<open>capturePayPalOrder\<close> of \<^verbatim>\<open>processor/src/services/paypal-payment.service.ts\<close>.
  A \<^verbatim>\<open>null\<close> cart raises at \<^verbatim>\<open>cart.customerId\<close>, while the argument of
  \<^verbatim>\<open>createPayment\<close> is built, before that call.\<close>

definition capturePayPalOrder ::
  "(('w, 'z) st_scheme) paypal_payment_service \<Rightarrow> (('w, 'z) st_scheme) payment_sdk \<Rightarrow>
   request_context \<Rightarrow> config \<Rightarrow> string \<Rightarrow> (('w, 'z) st_scheme, capture_response) prog" where
  "capturePayPalOrder this paymentSDK ctx cfg paypalOrderId =
     try_catch
       (then_do (getCart (ctCartService this) (getCartIdFromContext ctx)) (\<lambda>cart_opt.
        then_do (getPaymentAmount (ctCartService this) cart_opt) (\<lambda>amount.
        case cart_opt of
          None \<Rightarrow> throw (null_TypeError ''customerId'')
        | Some cart \<Rightarrow>
        then_do (createPayment_ct (ctPaymentService this)
                   (paypal_payment_draft ctx cart amount paypalOrderId)) (\<lambda>ctPayment.
        then_do (addPayment (ctCartService this) (cart_id cart) (cart_version cart)
                   (payment_id ctPayment)) (\<lambda>updatedCart.
        then_do (log_info ''PayPal payment recorded in commercetools'') (\<lambda>_.
        then_do (createOrderFromCart paymentSDK updatedCart) (\<lambda>order.
        then_do (log_info
            ''Order created successfully for PayPal payment using same pattern as Stripe'') (\<lambda>_.
        ret \<lparr>cr_orderId = paypalOrderId, cr_status = ''COMPLETED'',
             cr_paymentReference = Some (payment_id ctPayment),
             cr_ctOrderId = Some (order_id order),
             cr_orderNumber = orderNumber order,
             cr_merchantReturnUrl =
               js_or (getMerchantReturnUrlFromContext ctx) (merchantReturnUrl cfg)\<rparr>))))))))
       (\<lambda>error.
          then_do (log_error ''Error recording PayPal payment in commercetools'') (\<lambda>_.
          throw error))"

text \<open>\<^verbatim>\<open>capturePayPalOrder\<close> in the variant of the service that checks the cart id and
  the fetched cart itself (the second service file of \<^verbatim>\<open>src/unnamed/part_000\<close>).\<close>

definition capturePayPalOrder_checked ::
  "(('w, 'z) st_scheme) paypal_payment_service \<Rightarrow> (('w, 'z) st_scheme) payment_sdk \<Rightarrow>
   request_context \<Rightarrow> config \<Rightarrow> string \<Rightarrow> (('w, 'z) st_scheme, capture_response) prog" where
  "capturePayPalOrder_checked this paymentSDK ctx cfg paypalOrderId =
     try_catch
       (then_do (log_info ''Starting PayPal order capture process'') (\<lambda>_.
        then_do
          (if \<not> truthy (getCartIdFromContext ctx)
           then then_do (log_error ''Cart ID not found in context'') (\<lambda>_.
                throw (new_Error ''Cart ID not found in context''))
           else ret (or_default (getCartIdFromContext ctx) [])) (\<lambda>cartId.
        then_do (log_info ''Retrieved cart ID from context'') (\<lambda>_.
        then_do (getCart (ctCartService this) (Some cartId)) (\<lambda>cart_opt.
        case cart_opt of
          None \<Rightarrow>
            then_do (log_error ''Cart not found in commercetools'') (\<lambda>_.
            throw (new_Error (''Cart not found: '' @ cartId)))
        | Some cart \<Rightarrow>
        then_do (log_info ''Retrieved cart from commercetools'') (\<lambda>_.
        then_do (getPaymentAmount (ctCartService this) (Some cart)) (\<lambda>amount.
        then_do (log_info ''Calculated payment amount'') (\<lambda>_.
        then_do (log_info ''Creating commercetools payment'') (\<lambda>_.
        then_do (createPayment_ct (ctPaymentService this)
                   (paypal_payment_draft ctx cart amount paypalOrderId)) (\<lambda>ctPayment.
        then_do (log_info ''Successfully created commercetools payment'') (\<lambda>_.
        then_do (log_info ''Adding payment to cart'') (\<lambda>_.
        then_do (addPayment (ctCartService this) (cart_id cart) (cart_version cart)
                   (payment_id ctPayment)) (\<lambda>updatedCart.
        then_do (log_info ''Successfully added payment to cart'') (\<lambda>_.
        then_do (log_info ''PayPal payment recorded in commercetools'') (\<lambda>_.
        then_do (log_info ''Creating order from cart'') (\<lambda>_.
        then_do (createOrderFromCart paymentSDK updatedCart) (\<lambda>order.
        then_do (log_info
            ''Order created successfully for PayPal payment using same pattern as Stripe'') (\<lambda>_.
        then_do (log_info ''PayPal capture process completed successfully'') (\<lambda>_.
        ret \<lparr>cr_orderId = paypalOrderId, cr_status = ''COMPLETED'',
             cr_paymentReference = Some (payment_id ctPayment),
             cr_ctOrderId = Some (order_id order),
             cr_orderNumber = orderNumber order,
             cr_merchantReturnUrl =
               js_or (getMerchantReturnUrlFromContext ctx) (merchantReturnUrl cfg)\<rparr>
        )))))))))))))))))))
       (\<lambda>error.
          then_do (log_error ''Error recording PayPal payment in commercetools'') (\<lambda>_.
          throw error))"

subsection \<open>The commerce backend as the services reach it\<close>

text \<open>
  The cart service, the payment service and the API client belong to the commerce SDK.
  Each of their operations is one request to the backend, answered by the backend from
  its state \<open>'w\<close>; any operation may be rejected.
\<close>

record 'w commerce_backend =
  be_getCart :: "string option \<Rightarrow> 'w \<Rightarrow> (js_error + cart option) \<times> 'w"
  be_getPaymentAmount :: "cart option \<Rightarrow> 'w \<Rightarrow> (js_error + money) \<times> 'w"
  be_createPayment :: "payment_draft \<Rightarrow> 'w \<Rightarrow> (js_error + payment) \<times> 'w"
  be_addPayment :: "string \<Rightarrow> int \<Rightarrow> string \<Rightarrow> 'w \<Rightarrow> (js_error + cart) \<times> 'w"
  be_ordersPost :: "order_draft \<Rightarrow> 'w \<Rightarrow> (js_error + order) \<times> 'w"

definition cartService_of :: "'w commerce_backend \<Rightarrow> (('w, 'z) st_scheme) ct_cart_service" where
  "cartService_of be =
     \<lparr>getCart = (\<lambda>i. request (CtGetCart i) (be_getCart be i)),
      getPaymentAmount = (\<lambda>c. request (CtGetPaymentAmount c) (be_getPaymentAmount be c)),
      addPayment = (\<lambda>i v p. request (CtAddPayment i v p) (be_addPayment be i v p))\<rparr>"

definition paymentService_of ::
  "'w commerce_backend \<Rightarrow> (('w, 'z) st_scheme) ct_payment_service" where
  "paymentService_of be =
     \<lparr>createPayment_ct = (\<lambda>d. request (CtCreatePayment d) (be_createPayment be d))\<rparr>"

definition paymentSDK_of :: "'w commerce_backend \<Rightarrow> (('w, 'z) st_scheme) payment_sdk" where
  "paymentSDK_of be =
     \<lparr>sdk_ctCartService = cartService_of be,
      orders_post = (\<lambda>d. request (CtOrdersPost d) (be_ordersPost be d))\<rparr>"

definition paypalService_of ::
  "'w commerce_backend \<Rightarrow> (('w, 'z) st_scheme) paypal_payment_service" where
  "paypalService_of be =
     \<lparr>ctCartService = cartService_of be, ctPaymentService = paymentService_of be\<rparr>"

section \<open>Processor: the capture route (paypal-payment.route.ts)\<close>

datatype http_reply = Reply nat capture_response


section \<open>Enabler: payment flows (payment-flows.ts)\<close>

text \<open>\<^verbatim>\<open>"payment" | "subscription" | "setup"\<close>; \<open>Mode_other\<close> is any other value met at run
  time, which the \<^verbatim>\<open>default\<close> branch of \<^verbatim>\<open>submit\<close> receives.\<close>

datatype payment_mode = Mode_payment | Mode_subscription | Mode_setup | Mode_other

record elements_submit_result =
  submit_error :: "js_error option"

record stripe_intent =
  intent_id :: string

record 's api_service =
  api_getPayment :: "('s, payment_response) prog"
  api_confirmPaymentIntent :: "confirm_payment_intent \<Rightarrow> ('s, unit) prog"
  api_createSetupIntent :: "('s, setup_intent_response) prog"
  api_createSubscriptionFromSetupIntent :: "string \<Rightarrow> ('s, subscription_from_setup) prog"
  api_createSubscription :: "('s, subscription_response) prog"
  api_confirmSubscriptionPayment :: "confirm_subscription_payment \<Rightarrow> ('s, unit) prog"
  api_capturePayPalOrder :: "string \<Rightarrow> ('s, capture_response) prog"

record 's stripe_service =
  confirmStripePayment :: "payment_response \<Rightarrow> ('s, stripe_intent) prog"
  confirmStripeSetupIntent :: "setup_intent_response \<Rightarrow> ('s, stripe_intent) prog"

record 's payment_flows =
  api :: "'s api_service"
  stripe :: "'s stripe_service"
  elements_submit :: "('s, elements_submit_result) prog"
  paymentMode :: payment_mode
  onComplete :: "(payment_result \<Rightarrow> ('s, unit) prog) option"
  onError :: "(js_error \<Rightarrow> ('s, unit) prog) option"

definition createPayment :: "'s payment_flows \<Rightarrow> ('s, unit) prog" where
  "createPayment this =
     then_do (api_getPayment (api this)) (\<lambda>paymentRes.
     then_do (confirmStripePayment (stripe this) paymentRes) (\<lambda>paymentIntent.
     then_do (api_confirmPaymentIntent (api this)
                \<lparr>cpi_paymentIntentId = intent_id paymentIntent,
                 cpi_paymentReference = pr_paymentReference paymentRes\<rparr>) (\<lambda>_.
     opt_call (onComplete this)
       \<lparr>isSuccess = True,
        res_paymentReference = Some (pr_paymentReference paymentRes),
        res_paymentIntent = intent_id paymentIntent,
        res_orderId = None, res_orderNumber = None\<rparr>)))"

definition createSetupIntent :: "'s payment_flows \<Rightarrow> ('s, unit) prog" where
  "createSetupIntent this =
     then_do (api_createSetupIntent (api this)) (\<lambda>setupRes.
     then_do (confirmStripeSetupIntent (stripe this)
                \<lparr>si_clientSecret = si_clientSecret setupRes,
                 si_merchantReturnUrl = si_merchantReturnUrl setupRes,
                 si_billingAddress = si_billingAddress setupRes\<rparr>) (\<lambda>setupIntent.
     then_do (api_createSubscriptionFromSetupIntent (api this) (intent_id setupIntent))
       (\<lambda>subscription.
     then_do (api_confirmSubscriptionPayment (api this)
                \<lparr>csp_subscriptionId = ss_subscriptionId subscription,
                 csp_paymentReference = ss_paymentReference subscription,
                 csp_paymentIntentId = None\<rparr>) (\<lambda>_.
     opt_call (onComplete this)
       \<lparr>isSuccess = True,
        res_paymentReference = Some (ss_paymentReference subscription),
        res_paymentIntent = intent_id setupIntent,
        res_orderId = None, res_orderNumber = None\<rparr>))))"

definition createSubscription :: "'s payment_flows \<Rightarrow> ('s, unit) prog" where
  "createSubscription this =
     then_do (api_createSubscription (api this)) (\<lambda>subRes.
     then_do (confirmStripePayment (stripe this)
                \<lparr>pr_cartId = pr_cartId (sr_payment subRes),
                 pr_clientSecret = pr_clientSecret (sr_payment subRes),
                 pr_billingAddress = pr_billingAddress (sr_payment subRes),
                 pr_merchantReturnUrl = pr_merchantReturnUrl (sr_payment subRes),
                 pr_paymentReference = pr_paymentReference (sr_payment subRes)\<rparr>)
       (\<lambda>paymentIntent.
     then_do (api_confirmSubscriptionPayment (api this)
                \<lparr>csp_subscriptionId = sr_subscriptionId subRes,
                 csp_paymentReference = pr_paymentReference (sr_payment subRes),
                 csp_paymentIntentId = Some (intent_id paymentIntent)\<rparr>) (\<lambda>_.
     opt_call (onComplete this)
       \<lparr>isSuccess = True,
        res_paymentReference = Some (pr_paymentReference (sr_payment subRes)),
        res_paymentIntent = intent_id paymentIntent,
        res_orderId = None, res_orderNumber = None\<rparr>)))"

definition submit :: "'s payment_flows \<Rightarrow> ('s, unit) prog" where
  "submit this =
     try_catch
       (then_do (elements_submit this) (\<lambda>res.
          case submit_error res of
            Some submitError \<Rightarrow> throw submitError
          | None \<Rightarrow>
              (case paymentMode this of
                 Mode_payment \<Rightarrow> createPayment this
               | Mode_subscription \<Rightarrow> createSubscription this
               | Mode_setup \<Rightarrow> createSetupIntent this
               | Mode_other \<Rightarrow> throw (new_Error ''Invalid payment mode''))))
       (\<lambda>error. opt_call (onError this) error)"

text \<open>The \<^verbatim>\<open>switch\<close> of \<^verbatim>\<open>submit\<close> on its own: the sequence of the payment mode.\<close>

definition submit_switch :: "'s payment_flows \<Rightarrow> ('s, unit) prog" where
  "submit_switch this =
     (case paymentMode this of
        Mode_payment \<Rightarrow> createPayment this
      | Mode_subscription \<Rightarrow> createSubscription this
      | Mode_setup \<Rightarrow> createSetupIntent this
      | Mode_other \<Rightarrow> throw (new_Error ''Invalid payment mode''))"

text \<open>The browser globals \<^verbatim>\<open>createPayPalPayment\<close> uses: \<^verbatim>\<open>new URL(s)\<close> raises a
  \<^verbatim>\<open>TypeError\<close> on a string that is not an absolute URL.\<close>

record browser =
  valid_url :: "string \<Rightarrow> bool"

definition invalid_URL :: js_error where
  "invalid_URL = \<lparr>err_name = ''TypeError'', err_message = Some ''Invalid URL'', err_body = None\<rparr>"

definition createPayPalPayment ::
  "(('w, 'z) st_scheme) payment_flows \<Rightarrow> browser \<Rightarrow> string \<Rightarrow> (('w, 'z) st_scheme, unit) prog" where
  "createPayPalPayment this window paypalOrderId =
     try_catch
       (then_do (api_capturePayPalOrder (api this) paypalOrderId) (\<lambda>result.
        then_do (opt_call (onComplete this)
                   \<lparr>isSuccess = True,
                    res_paymentReference = cr_paymentReference result,
                    res_paymentIntent = paypalOrderId,
                    res_orderId = cr_ctOrderId result,
                    res_orderNumber = cr_orderNumber result\<rparr>) (\<lambda>_.
        if truthy (cr_merchantReturnUrl result)
        then
          (if \<not> valid_url window (or_default (cr_merchantReturnUrl result) [])
           then throw invalid_URL
           else
             then_do (emit (Console ''log''
                 ''PayPal order created successfully, redirecting to confirmation:'')) (\<lambda>_.
             emit (Redirect (or_default (cr_merchantReturnUrl result) [])
                     [(''paymentReference'', or_default (cr_paymentReference result) []),
                      (''orderId'', or_default (cr_ctOrderId result) []),
                      (''orderNumber'', or_default (cr_orderNumber result) []),
                      (''paymentMethod'', ''paypal''),
                      (''status'', ''completed'')])))
        else ret ())))
       (\<lambda>error.
          then_do (emit (Console ''error'' ''Error processing PayPal payment:'')) (\<lambda>_.
          opt_call (onError this) error))"

section \<open>Enabler: the composite widget (payment-element.ts)\<close>

record element =
  classList :: "string list"
  style :: "string \<rightharpoonup> string"

record paypal_config =
  pc_clientId :: "string option"
  pc_currency :: string
  pc_amount :: int
  pc_environment :: string

text \<open>The component's mutable fields and the document's elements by id.\<close>

record 'w ui = "'w st" +
  paypalMounted :: bool
  isPayPalSelected :: bool
  paypalConfig :: "paypal_config option"
  document :: "string \<rightharpoonup> element"

definition classList_add :: "string \<Rightarrow> element \<Rightarrow> element" where
  "classList_add c e = e\<lparr>classList := (if c \<in> set (classList e) then classList e else classList e @ [c])\<rparr>"

definition classList_remove :: "string \<Rightarrow> element \<Rightarrow> element" where
  "classList_remove c e = e\<lparr>classList := removeAll c (classList e)\<rparr>"

definition set_style :: "string \<Rightarrow> string \<Rightarrow> element \<Rightarrow> element" where
  "set_style p v e = e\<lparr>style := (style e)(p \<mapsto> v)\<rparr>"

text \<open>\<^verbatim>\<open>const e = document.getElementById(i); if (e) { ... }\<close>.\<close>

definition with_element ::
  "string \<Rightarrow> (element \<Rightarrow> element) \<Rightarrow> (string \<rightharpoonup> element) \<Rightarrow> (string \<rightharpoonup> element)" where
  "with_element i f d = (case d i of None \<Rightarrow> d | Some e \<Rightarrow> d(i \<mapsto> f e))"

definition selectPayPal :: "('w, 'z) ui_scheme \<Rightarrow> ('w, 'z) ui_scheme" where
  "selectPayPal s =
     (let d1 = with_element ''paypal-payment-option'' (classList_add ''selected'') (document s);
          d2 = with_element ''paypal-button-wrapper'' (set_style ''display'' ''block'') d1;
          d3 = with_element ''stripe-payment-element-container''
                 (\<lambda>e. set_style ''pointerEvents'' ''none'' (set_style ''opacity'' ''0.5'' e)) d2
      in s\<lparr>isPayPalSelected := True, document := d3\<rparr>)"

definition deselectPayPal :: "('w, 'z) ui_scheme \<Rightarrow> ('w, 'z) ui_scheme" where
  "deselectPayPal s =
     (let d1 = with_element ''paypal-payment-option'' (classList_remove ''selected'') (document s);
          d2 = with_element ''paypal-button-wrapper'' (set_style ''display'' ''none'') d1;
          d3 = with_element ''stripe-payment-element-container''
                 (\<lambda>e. set_style ''pointerEvents'' ''auto'' (set_style ''opacity'' ''1'' e)) d2
      in s\<lparr>isPayPalSelected := False, document := d3\<rparr>)"

text \<open>The listeners \<^verbatim>\<open>mount\<close> registers: the click on the PayPal option, the change
  event of the Stripe Payment Element, the click on the Stripe container.\<close>

definition on_paypalOption_click :: "('w, 'z) ui_scheme \<Rightarrow> ('w, 'z) ui_scheme" where
  "on_paypalOption_click s = selectPayPal s"

definition on_paymentElement_change :: "('w, 'z) ui_scheme \<Rightarrow> ('w, 'z) ui_scheme" where
  "on_paymentElement_change s = (if isPayPalSelected s then deselectPayPal s else s)"

definition on_stripeContainer_click :: "('w, 'z) ui_scheme \<Rightarrow> ('w, 'z) ui_scheme" where
  "on_stripeContainer_click s = (if isPayPalSelected s then deselectPayPal s else s)"

text \<open>The callbacks \<^verbatim>\<open>renderPayPalButton\<close> hands to \<^verbatim>\<open>window.paypal.Buttons\<close>.
  \<open>config\<close> is \<^verbatim>\<open>this.paypalConfig\<close> and \<open>onError\<close> is \<^verbatim>\<open>this.baseOptions.onError\<close>, both read
  when the button is rendered; \<open>actions\<close> are the provider's.\<close>

record 's paypal_actions =
  order_create :: "paypal_order_request \<Rightarrow> ('s, string) prog"
  order_capture :: "('s, unit) prog"

definition paypal_createOrder ::
  "paypal_config \<Rightarrow> (js_error \<Rightarrow> (('w, 'z) st_scheme, unit) prog) \<Rightarrow>
   (('w, 'z) st_scheme) paypal_actions \<Rightarrow> (('w, 'z) st_scheme, string) prog" where
  "paypal_createOrder config onError_cb actions =
     try_catch
       (let totalValue = pc_amount config in
        if totalValue \<le> 0
        then
          then_do (emit (Console ''error''
              ''Cart total is zero or negative, cannot create PayPal order'')) (\<lambda>_.
          throw (new_Error ''Cart total must be greater than zero''))
        else
          order_create actions
            \<lparr>po_intent = ''CAPTURE'', po_reference_id = ''ORDER'',
             po_description = ''Order Payment'', po_currency_code = pc_currency config,
             po_value_hundredths = totalValue\<rparr>)
       (\<lambda>error.
          then_do (emit (Console ''error'' ''Error creating PayPal order:'')) (\<lambda>_.
          then_do (onError_cb error) (\<lambda>_.
          throw error)))"

definition paypal_onApprove ::
  "(('w, 'z) st_scheme) payment_flows \<Rightarrow> browser \<Rightarrow>
   (js_error \<Rightarrow> (('w, 'z) st_scheme, unit) prog) \<Rightarrow>
   (('w, 'z) st_scheme) paypal_actions \<Rightarrow> string \<Rightarrow> (('w, 'z) st_scheme, unit) prog" where
  "paypal_onApprove paymentFlows window onError_cb actions orderID =
     try_catch
       (then_do (order_capture actions) (\<lambda>captureDetails.
        then_do (emit (Console ''log'' ''PayPal order captured:'')) (\<lambda>_.
        createPayPalPayment paymentFlows window orderID)))
       (\<lambda>error.
          then_do (emit (Console ''error'' ''Error capturing PayPal order:'')) (\<lambda>_.
          onError_cb error))"

definition paypal_onError ::
  "(js_error \<Rightarrow> (('w, 'z) st_scheme, unit) prog) \<Rightarrow> js_error \<Rightarrow>
   (('w, 'z) st_scheme, unit) prog" where
  "paypal_onError onError_cb err =
     then_do (emit (Console ''error'' ''PayPal error:'')) (\<lambda>_. onError_cb err)"

definition paypal_onCancel :: "(('w, 'z) st_scheme, unit) prog" where
  "paypal_onCancel = emit (Console ''log'' ''PayPal payment cancelled by user'')"

text \<open>\<^verbatim>\<open>PaymentElementComponent.submit\<close>.\<close>

definition component_submit ::
  "(('w, 'z) ui_scheme) payment_flows \<Rightarrow> (('w, 'z) ui_scheme, unit) prog" where
  "component_submit paymentFlows =
     (\<lambda>s. if isPayPalSelected s
          then emit (Console ''log''
                 ''PayPal payment - use the PayPal button to complete payment'') s
          else submit paymentFlows s)"

section \<open>The collaborators outside the repository\<close>

text \<open>
  The processor's HTTP API as the browser reaches it, the provider SDKs and the
  callbacks of the embedding page are not part of the repository. Each is a function of
  the world that answers with a value or raises; the services below wrap them so that
  every call is put on the timeline when it is made.
\<close>

type_synonym ('w, 'a) answer = "'w \<Rightarrow> (js_error + 'a) \<times> 'w"

record 'w processor =
  pa_getPayment :: "('w, payment_response) answer"
  pa_confirmPaymentIntent :: "confirm_payment_intent \<Rightarrow> ('w, unit) answer"
  pa_createSetupIntent :: "('w, setup_intent_response) answer"
  pa_createSubscriptionFromSetupIntent :: "string \<Rightarrow> ('w, subscription_from_setup) answer"
  pa_createSubscription :: "('w, subscription_response) answer"
  pa_confirmSubscriptionPayment :: "confirm_subscription_payment \<Rightarrow> ('w, unit) answer"
  pa_capturePayPalOrder :: "string \<Rightarrow> ('w, capture_response) answer"

record 'w provider =
  pv_elements_submit :: "('w, elements_submit_result) answer"
  pv_confirmPayment :: "payment_response \<Rightarrow> ('w, stripe_intent) answer"
  pv_confirmSetupIntent :: "setup_intent_response \<Rightarrow> ('w, stripe_intent) answer"
  pv_order_create :: "paypal_order_request \<Rightarrow> ('w, string) answer"
  pv_order_capture :: "('w, unit) answer"

record 'w page =
  page_onComplete :: "(payment_result \<Rightarrow> ('w, unit) answer) option"
  page_onError :: "(js_error \<Rightarrow> ('w, unit) answer) option"

definition apiService_of :: "'w processor \<Rightarrow> (('w, 'z) st_scheme) api_service" where
  "apiService_of pa =
     \<lparr>api_getPayment = request ApiGetPayment (pa_getPayment pa),
      api_confirmPaymentIntent =
        (\<lambda>a. request (ApiConfirmPaymentIntent a) (pa_confirmPaymentIntent pa a)),
      api_createSetupIntent = request ApiCreateSetupIntent (pa_createSetupIntent pa),
      api_createSubscriptionFromSetupIntent =
        (\<lambda>i. request (ApiCreateSubscriptionFromSetupIntent i)
               (pa_createSubscriptionFromSetupIntent pa i)),
      api_createSubscription = request ApiCreateSubscription (pa_createSubscription pa),
      api_confirmSubscriptionPayment =
        (\<lambda>a. request (ApiConfirmSubscriptionPayment a) (pa_confirmSubscriptionPayment pa a)),
      api_capturePayPalOrder =
        (\<lambda>i. request (ApiCapturePayPalOrder i) (pa_capturePayPalOrder pa i))\<rparr>"

definition stripeService_of :: "'w provider \<Rightarrow> (('w, 'z) st_scheme) stripe_service" where
  "stripeService_of pv =
     \<lparr>confirmStripePayment = (\<lambda>r. request (StripeConfirmPayment r) (pv_confirmPayment pv r)),
      confirmStripeSetupIntent =
        (\<lambda>r. request (StripeConfirmSetupIntent r) (pv_confirmSetupIntent pv r))\<rparr>"

definition paypalActions_of :: "'w provider \<Rightarrow> (('w, 'z) st_scheme) paypal_actions" where
  "paypalActions_of pv =
     \<lparr>order_create = (\<lambda>r. request (PayPalOrderCreate r) (pv_order_create pv r)),
      order_capture = request PayPalOrderCapture (pv_order_capture pv)\<rparr>"

definition completion_callback ::
  "(payment_result \<Rightarrow> ('w, unit) answer) \<Rightarrow> payment_result \<Rightarrow> (('w, 'z) st_scheme, unit) prog" where
  "completion_callback c = (\<lambda>r. request (OnComplete r) (c r))"

definition error_callback ::
  "(js_error \<Rightarrow> ('w, unit) answer) \<Rightarrow> js_error \<Rightarrow> (('w, 'z) st_scheme, unit) prog" where
  "error_callback h = (\<lambda>e. request (OnError e) (h e))"

text \<open>\<^verbatim>\<open>new PaymentFlows({api, stripe, elements, paymentMode, onComplete, onError})\<close>.\<close>

definition flows_of ::
  "'w processor \<Rightarrow> 'w provider \<Rightarrow> 'w page \<Rightarrow> payment_mode \<Rightarrow>
   (('w, 'z) st_scheme) payment_flows" where
  "flows_of pa pv pg mode =
     \<lparr>api = apiService_of pa,
      stripe = stripeService_of pv,
      elements_submit = request ElementsSubmit (pv_elements_submit pv),
      paymentMode = mode,
      onComplete = map_option completion_callback (page_onComplete pg),
      onError = map_option error_callback (page_onError pg)\<rparr>"




subsection \<open>Reading the timeline\<close>

fun is_onComplete :: "event \<Rightarrow> bool" where
  "is_onComplete (OnComplete _) = True"
| "is_onComplete _ = False"

fun is_onError :: "event \<Rightarrow> bool" where
  "is_onError (OnError _) = True"
| "is_onError _ = False"

definition is_callback :: "event \<Rightarrow> bool" where
  "is_callback e = (is_onComplete e \<or> is_onError e)"

text \<open>The name of the processor operation a browser request asks for.\<close>

fun api_name :: "event \<Rightarrow> string option" where
  "api_name ApiGetPayment = Some ''getPayment''"
| "api_name (ApiConfirmPaymentIntent _) = Some ''confirmPaymentIntent''"
| "api_name ApiCreateSetupIntent = Some ''createSetupIntent''"
| "api_name (ApiCreateSubscriptionFromSetupIntent _) = Some ''createSubscriptionFromSetupIntent''"
| "api_name ApiCreateSubscription = Some ''createSubscription''"
| "api_name (ApiConfirmSubscriptionPayment _) = Some ''confirmSubscriptionPayment''"
| "api_name (ApiCapturePayPalOrder _) = Some ''capturePayPalOrder''"
| "api_name _ = None"

definition api_calls :: "event list \<Rightarrow> string list" where
  "api_calls evs = List.map_filter api_name evs"

text \<open>The backend sequence of each payment mode, as \<^verbatim>\<open>createPayment\<close>,
  \<^verbatim>\<open>createSubscription\<close> and \<^verbatim>\<open>createSetupIntent\<close> call it.\<close>

fun mode_sequence :: "payment_mode \<Rightarrow> string list" where
  "mode_sequence Mode_payment = [''getPayment'', ''confirmPaymentIntent'']"
| "mode_sequence Mode_subscription = [''createSubscription'', ''confirmSubscriptionPayment'']"
| "mode_sequence Mode_setup =
     [''createSetupIntent'', ''createSubscriptionFromSetupIntent'', ''confirmSubscriptionPayment'']"
| "mode_sequence Mode_other = []"

text \<open>Requests to the commerce backend or to the processor.\<close>

fun is_ct_request :: "event \<Rightarrow> bool" where
  "is_ct_request (CtGetCart _) = True"
| "is_ct_request (CtGetPaymentAmount _) = True"
| "is_ct_request (CtCreatePayment _) = True"
| "is_ct_request (CtAddPayment _ _ _) = True"
| "is_ct_request (CtOrdersPost _) = True"
| "is_ct_request _ = False"

definition is_backend_call :: "event \<Rightarrow> bool" where
  "is_backend_call e = (is_ct_request e \<or> api_name e \<noteq> None)"

fun is_createPayment :: "event \<Rightarrow> bool" where
  "is_createPayment (CtCreatePayment _) = True"
| "is_createPayment _ = False"

fun is_provider_order_create :: "event \<Rightarrow> bool" where
  "is_provider_order_create (PayPalOrderCreate _) = True"
| "is_provider_order_create _ = False"


text \<open>The name of a step of \<^verbatim>\<open>submit\<close>: a provider call or a processor request.\<close>

fun step_name :: "event \<Rightarrow> string option" where
  "step_name ElementsSubmit = Some ''elements.submit''"
| "step_name (StripeConfirmPayment _) = Some ''confirmStripePayment''"
| "step_name (StripeConfirmSetupIntent _) = Some ''confirmStripeSetupIntent''"
| "step_name e = api_name e"

definition steps :: "event list \<Rightarrow> string list" where
  "steps evs = List.map_filter step_name evs"

section \<open>A small shop, a scripted processor and a page, for concrete runs\<close>

text \<open>
  A commerce backend with one cart, kept under optimistic concurrency: attaching a
  payment and creating an order are rejected on a stale version, and every created
  payment gets the next free id.
\<close>

record shop =
  shop_cart :: cart
  shop_total :: money
  shop_payments :: "payment_draft list"
  shop_attached :: "string list"
  shop_orders :: "order_draft list"

definition shop_payment_id :: "nat \<Rightarrow> string" where
  "shop_payment_id n = ''payment-'' @ replicate (Suc n) (CHR ''i'')"


definition not_found :: js_error where
  "not_found = \<lparr>err_name = ''NotFound'', err_message = Some ''Resource not found'', err_body = None\<rparr>"

definition version_conflict :: js_error where
  "version_conflict =
     \<lparr>err_name = ''ConcurrentModification'', err_message = Some ''Version mismatch'',
      err_body = Some \<lparr>eb_message = Some ''Object has a different version than expected'',
                       eb_errors = Some [\<lparr>se_message = None,
                                          se_code = Some ''ConcurrentModification''\<rparr>]\<rparr>\<rparr>"

definition shop_backend :: "shop commerce_backend" where
  "shop_backend =
     \<lparr>be_getCart = (\<lambda>i w.
        if i = Some (cart_id (shop_cart w)) then (Inr (Some (shop_cart w)), w)
        else (Inl not_found, w)),
      be_getPaymentAmount = (\<lambda>c w. (Inr (shop_total w), w)),
      be_createPayment = (\<lambda>d w.
        (Inr \<lparr>payment_id = shop_payment_id (length (shop_payments w))\<rparr>,
         w\<lparr>shop_payments := shop_payments w @ [d]\<rparr>)),
      be_addPayment = (\<lambda>i v p w.
        if i = cart_id (shop_cart w) \<and> v = cart_version (shop_cart w)
        then (Inr ((shop_cart w)\<lparr>cart_version := v + 1\<rparr>),
              w\<lparr>shop_cart := (shop_cart w)\<lparr>cart_version := v + 1\<rparr>,
                shop_attached := shop_attached w @ [p]\<rparr>)
        else (Inl version_conflict, w)),
      be_ordersPost = (\<lambda>d w.
        if od_cart_id d = cart_id (shop_cart w) \<and> od_version d = cart_version (shop_cart w)
        then (Inr \<lparr>order_id = ''order-1'', orderNumber = Some ''1001'',
                   orderState = Some (od_orderState d),
                   paymentState = Some (od_paymentState d),
                   shipmentState = Some (od_shipmentState d)\<rparr>,
              w\<lparr>shop_orders := shop_orders w @ [d]\<rparr>)
        else (Inl version_conflict, w))\<rparr>"

text \<open>The same shop when its cart lookup answers with no cart.\<close>

definition shop_without_cart :: "shop commerce_backend" where
  "shop_without_cart = shop_backend\<lparr>be_getCart := (\<lambda>i w. (Inr None, w))\<rparr>"

definition shop0 :: shop where
  "shop0 =
     \<lparr>shop_cart = \<lparr>cart_id = ''cart-1'', cart_version = 1, customerId = None,
                   anonymousId = Some ''anon-1''\<rparr>,
      shop_total = \<lparr>currencyCode = ''USD'', centAmount = 1999\<rparr>,
      shop_payments = [], shop_attached = [], shop_orders = []\<rparr>"

definition ctx0 :: request_context where
  "ctx0 = \<lparr>getCartIdFromContext = Some ''cart-1'', getPaymentInterfaceFromContext = None,
          getMerchantReturnUrlFromContext = None\<rparr>"

definition ctx_without_cart :: request_context where
  "ctx_without_cart = ctx0\<lparr>getCartIdFromContext := None\<rparr>"

definition cfg0 :: config where
  "cfg0 = \<lparr>merchantReturnUrl = Some ''https://shop.example/thanks''\<rparr>"

definition start :: "'w \<Rightarrow> 'w st" where
  "start w = \<lparr>world = w, trace = []\<rparr>"

definition answer_with :: "'a \<Rightarrow> ('w, 'a) answer" where
  "answer_with x = (\<lambda>w. (Inr x, w))"

definition reject_with :: "js_error \<Rightarrow> ('w, 'a) answer" where
  "reject_with e = (\<lambda>w. (Inl e, w))"

definition payment_ref_1 :: payment_response where
  "payment_ref_1 =
     \<lparr>pr_cartId = None, pr_clientSecret = Some ''cs_1'', pr_billingAddress = None,
      pr_merchantReturnUrl = None, pr_paymentReference = ''pr_1''\<rparr>"

definition scripted_processor :: "'w processor" where
  "scripted_processor =
     \<lparr>pa_getPayment = answer_with payment_ref_1,
      pa_confirmPaymentIntent = (\<lambda>a. answer_with ()),
      pa_createSetupIntent =
        answer_with \<lparr>si_clientSecret = Some ''seti_secret'', si_merchantReturnUrl = None,
                     si_billingAddress = None\<rparr>,
      pa_createSubscriptionFromSetupIntent =
        (\<lambda>i. answer_with \<lparr>ss_subscriptionId = ''sub_1'', ss_paymentReference = ''pr_2''\<rparr>),
      pa_createSubscription =
        answer_with \<lparr>sr_payment = payment_ref_1, sr_subscriptionId = ''sub_1''\<rparr>,
      pa_confirmSubscriptionPayment = (\<lambda>a. answer_with ()),
      pa_capturePayPalOrder = (\<lambda>i. reject_with not_found)\<rparr>"

definition scripted_provider :: "'w provider" where
  "scripted_provider =
     \<lparr>pv_elements_submit = answer_with \<lparr>submit_error = None\<rparr>,
      pv_confirmPayment = (\<lambda>r. answer_with \<lparr>intent_id = ''pi_1''\<rparr>),
      pv_confirmSetupIntent = (\<lambda>r. answer_with \<lparr>intent_id = ''seti_1''\<rparr>),
      pv_order_create = (\<lambda>r. answer_with ''EC-1''),
      pv_order_capture = answer_with ()\<rparr>"

definition card_declined :: js_error where
  "card_declined =
     \<lparr>err_name = ''StripeError'', err_message = Some ''Your card number is incomplete.'',
      err_body = None\<rparr>"

text \<open>A provider whose input submission reports a validation error.\<close>

definition rejecting_provider :: "'w provider" where
  "rejecting_provider =
     scripted_provider\<lparr>pv_elements_submit := answer_with \<lparr>submit_error = Some card_declined\<rparr>\<rparr>"

text \<open>Pages: one that supplies both callbacks, one that supplies none, and one whose
  completion callback raises.\<close>

definition listening_page :: "'w page" where
  "listening_page =
     \<lparr>page_onComplete = Some (\<lambda>r. answer_with ()), page_onError = Some (\<lambda>e. answer_with ())\<rparr>"

definition silent_page :: "'w page" where
  "silent_page = \<lparr>page_onComplete = None, page_onError = None\<rparr>"

definition faulty_page :: "'w page" where
  "faulty_page =
     \<lparr>page_onComplete = Some (\<lambda>r. reject_with (new_Error ''render failed'')),
      page_onError = Some (\<lambda>e. answer_with ())\<rparr>"

definition decode_reply :: "http_reply \<Rightarrow> js_error + capture_response" where
  "decode_reply reply =
     (case reply of Reply code body \<Rightarrow>
        if code = 200 then Inr body else Inl (new_Error ''Failed to capture PayPal order''))"

definition browser0 :: browser where
  "browser0 = \<lparr>valid_url = (\<lambda>u. take 8 u = ''https://'')\<rparr>"

text \<open>A widget as \<^verbatim>\<open>mount\<close> leaves it when the alternative wallet is available: the
  three elements the listeners look up, with the style properties they touch.\<close>

definition mounted_ui :: "unit ui" where
  "mounted_ui =
     \<lparr>world = (), trace = [],
      paypalMounted = True, isPayPalSelected = False,
      paypalConfig = Some \<lparr>pc_clientId = Some ''client-1'', pc_currency = ''USD'',
                            pc_amount = 1999, pc_environment = ''sandbox''\<rparr>,
      document =
        [''stripe-payment-element-container'' \<mapsto> \<lparr>classList = [], style = Map.empty\<rparr>,
         ''paypal-payment-option'' \<mapsto>
            \<lparr>classList = [''paypal-payment-option''], style = [''cursor'' \<mapsto> ''pointer'']\<rparr>,
         ''paypal-button-wrapper'' \<mapsto> \<lparr>classList = [], style = [''display'' \<mapsto> ''none'']\<rparr>]\<rparr>"

definition empty_cart_config :: paypal_config where
  "empty_cart_config =
     \<lparr>pc_clientId = Some ''client-1'', pc_currency = ''USD'', pc_amount = 0,
      pc_environment = ''sandbox''\<rparr>"




definition settled_draft :: payment_draft where
  "settled_draft = paypal_payment_draft ctx0 (shop_cart shop0) (shop_total shop0) ''EC-1''"

text \<open>The shop whose cart already has a payment for \<^verbatim>\<open>EC-1\<close> attached.\<close>

definition shop_paid :: shop where
  "shop_paid =
     shop0\<lparr>shop_cart := (shop_cart shop0)\<lparr>cart_version := 2\<rparr>,
           shop_payments := [settled_draft],
           shop_attached := [''payment-i'']\<rparr>"

text \<open>A provider whose input submission itself fails, and a processor that cannot be
  reached for a payment reference.\<close>

definition network_error :: js_error where
  "network_error = \<lparr>err_name = ''TypeError'', err_message = Some ''Failed to fetch'',
                    err_body = None\<rparr>"

definition offline_provider :: "'w provider" where
  "offline_provider = scripted_provider\<lparr>pv_elements_submit := reject_with network_error\<rparr>"

definition offline_processor :: "'w processor" where
  "offline_processor = scripted_processor\<lparr>pa_getPayment := reject_with network_error\<rparr>"

section \<open>Reasoning about programs\<close>

lemma after_ret: "after (ret x) s Q = Q (Inr x) s"
  by (simp add: after_def ret_def)

lemma after_throw: "after (throw e) s Q = Q (Inl e) s"
  by (simp add: after_def throw_def)

lemma after_then_do:
  "after (then_do m k) s Q =
     after m s (\<lambda>r s'. case r of Inl e \<Rightarrow> Q (Inl e) s' | Inr x \<Rightarrow> after (k x) s' Q)"
  by (simp add: after_def then_do_def split: prod.split sum.split)

lemma after_try_catch:
  "after (try_catch m h) s Q =
     after m s (\<lambda>r s'. case r of Inl e \<Rightarrow> after (h e) s' Q | Inr x \<Rightarrow> Q (Inr x) s')"
  by (simp add: after_def try_catch_def split: prod.split sum.split)

lemma after_emit: "after (emit ev) s Q = Q (Inr ()) (s\<lparr>trace := trace s @ [ev]\<rparr>)"
  by (simp add: after_def emit_def)

lemma after_request:
  "after (request ev f) s Q =
     (case f (world s) of (r, w') \<Rightarrow> Q r (s\<lparr>world := w', trace := trace s @ [ev]\<rparr>))"
  by (simp add: after_def request_def split: prod.split)

lemma after_if: "after (if b then m else n) s Q = (if b then after m s Q else after n s Q)"
  by simp

lemma after_case_option:
  "after (case x of None \<Rightarrow> m | Some y \<Rightarrow> n y) s Q =
     (case x of None \<Rightarrow> after m s Q | Some y \<Rightarrow> after (n y) s Q)"
  by (simp split: option.split)

lemma after_case_sum:
  "after (case x of Inl a \<Rightarrow> m a | Inr b \<Rightarrow> n b) s Q =
     (case x of Inl a \<Rightarrow> after (m a) s Q | Inr b \<Rightarrow> after (n b) s Q)"
  by (simp split: sum.split)

lemma after_opt_call:
  "after (opt_call cb x) s Q = (case cb of None \<Rightarrow> Q (Inr ()) s | Some f \<Rightarrow> after (f x) s Q)"
  by (simp add: opt_call_def after_ret split: option.split)


lemma after_snd: "after m s Q \<Longrightarrow> Q (fst (m s)) (snd (m s))"
  by (simp add: after_def case_prod_unfold)

lemmas after_simps =
  after_ret after_throw after_then_do after_try_catch after_emit after_request after_if
  after_case_option after_case_sum after_opt_call log_info_def log_error_def

lemmas backend_stubs =
  cartService_of_def paymentService_of_def paymentSDK_of_def paypalService_of_def

lemmas client_stubs =
  apiService_of_def stripeService_of_def flows_of_def completion_callback_def
  error_callback_def paypalActions_of_def

lemmas run_defs =
  ret_def throw_def then_do_def try_catch_def emit_def request_def opt_call_def
  log_info_def log_error_def

lemmas shop_defs =
  shop_backend_def shop0_def ctx0_def cfg0_def start_def answer_with_def reject_with_def
  scripted_processor_def scripted_provider_def listening_page_def decode_reply_def
  browser0_def payment_ref_1_def truthy_def js_or_def or_default_def

lemma draft_interfaceId [simp]: "interfaceId (paypal_payment_draft ctx cart amount oid) = oid"
  by (simp add: paypal_payment_draft_def)

section \<open>Settlement: payment record, then order, then completion\<close>







section \<open>Order creation re-fetches the cart\<close>

lemma order_refetch:
  "after (createOrderFromCart (paymentSDK_of be) cart) s
     (\<lambda>x s'. \<forall>od. CtOrdersPost od \<in> set (emitted s s') \<longrightarrow>
        (\<exists>latest w1. be_getCart be (Some (cart_id cart)) (world s) = (Inr (Some latest), w1) \<and>
           od_version od = cart_version latest \<and> od_cart_id od = cart_id cart \<and>
           take 2 (emitted s s') = [CtGetCart (Some (cart_id cart)), CtOrdersPost od]))"
  by (simp add: createOrderFromCart_def after_simps backend_stubs emitted_def
      split: sum.split prod.split option.split)

lemma order_ignores_argument_version:
  "createOrderFromCart paymentSDK (cart\<lparr>cart_version := v\<rparr>) = createOrderFromCart paymentSDK cart"
  by (simp add: createOrderFromCart_def cong: option.case_cong)

lemma settle_refetch:
  "after (capturePayPalOrder (paypalService_of be) (paymentSDK_of be) ctx cfg oid) s
     (\<lambda>x s'. \<forall>od. CtOrdersPost od \<in> set (emitted s s') \<longrightarrow>
        (\<exists>i v p updated w3 w4 latest w5.
           be_addPayment be i v p w3 = (Inr updated, w4) \<and>
           be_getCart be (Some (cart_id updated)) w4 = (Inr (Some latest), w5) \<and>
           od_version od = cart_version latest \<and>
           take 4 (drop 3 (emitted s s')) =
             [CtAddPayment i v p, Log ''info'' ''PayPal payment recorded in commercetools'',
              CtGetCart (Some (cart_id updated)), CtOrdersPost od]))"
  apply (clarsimp simp add: capturePayPalOrder_def createOrderFromCart_def after_simps
      backend_stubs emitted_def split: sum.split prod.split option.split)
  apply (intro conjI impI allI; blast)
  done

text \<open>
  Claim C4. Whenever \<^verbatim>\<open>createOrderFromCart\<close> posts an order-creation request, the request
  is the event right after a fetch of the cart by its id, made by this very call, and the
  version in the request is the version that fetch returned; the version of the cart
  passed as argument is never read. In \<^verbatim>\<open>capturePayPalOrder\<close> the fetch follows the
  payment-attach request, in the world that request left, so the version posted is the
  one current after the attach.
\<close>

theorem order_uses_refetched_version:
  "after (createOrderFromCart (paymentSDK_of be) cart) s
     (\<lambda>x s'. \<forall>od. CtOrdersPost od \<in> set (emitted s s') \<longrightarrow>
        (\<exists>latest w1. be_getCart be (Some (cart_id cart)) (world s) = (Inr (Some latest), w1) \<and>
           od_version od = cart_version latest \<and> od_cart_id od = cart_id cart \<and>
           take 2 (emitted s s') = [CtGetCart (Some (cart_id cart)), CtOrdersPost od])) \<and>
   createOrderFromCart (paymentSDK_of be) (cart\<lparr>cart_version := v\<rparr>) =
     createOrderFromCart (paymentSDK_of be) cart \<and>
   after (capturePayPalOrder (paypalService_of be) (paymentSDK_of be) ctx cfg oid) s
     (\<lambda>x s'. \<forall>od. CtOrdersPost od \<in> set (emitted s s') \<longrightarrow>
        (\<exists>i v p updated w3 w4 latest w5.
           be_addPayment be i v p w3 = (Inr updated, w4) \<and>
           be_getCart be (Some (cart_id updated)) w4 = (Inr (Some latest), w5) \<and>
           od_version od = cart_version latest \<and>
           take 4 (drop 3 (emitted s s')) =
             [CtAddPayment i v p, Log ''info'' ''PayPal payment recorded in commercetools'',
              CtGetCart (Some (cart_id updated)), CtOrdersPost od]))"
  using order_refetch order_ignores_argument_version settle_refetch by blast

lemma stale_cart_run:
  "emitted (start shop_paid)
     (snd (createOrderFromCart (paymentSDK_of shop_backend) (shop_cart shop0) (start shop_paid))) =
   [CtGetCart (Some ''cart-1''),
    CtOrdersPost \<lparr>od_cart_id = ''cart-1'', od_cart_typeId = ''cart'',
                  od_shipmentState = ''Pending'', od_orderState = ''Open'',
                  od_version = 2, od_paymentState = ''Paid''\<rparr>]"
  by (simp add: createOrderFromCart_def shop_paid_def emitted_def run_defs backend_stubs
      shop_defs)

theorem order_uses_refetched_version_witness:
  "cart_version (shop_cart shop0) = 1 \<and>
   (\<exists>od. CtOrdersPost od \<in> set (emitted (start shop_paid)
        (snd (createOrderFromCart (paymentSDK_of shop_backend) (shop_cart shop0)
               (start shop_paid)))) \<and>
      od_version od = 2 \<and>
      (\<exists>latest w1. be_getCart shop_backend (Some ''cart-1'') shop_paid = (Inr (Some latest), w1) \<and>
          od_version od = cart_version latest))"
proof -
  let ?od = "\<lparr>od_cart_id = ''cart-1'', od_cart_typeId = ''cart'',
              od_shipmentState = ''Pending'', od_orderState = ''Open'',
              od_version = 2, od_paymentState = ''Paid''\<rparr>"
  let ?s' = "snd (createOrderFromCart (paymentSDK_of shop_backend) (shop_cart shop0)
                    (start shop_paid))"
  have posted: "CtOrdersPost ?od \<in> set (emitted (start shop_paid) ?s')"
    by (simp add: stale_cart_run)
  have "after (createOrderFromCart (paymentSDK_of shop_backend) (shop_cart shop0))
          (start shop_paid)
     (\<lambda>x s'. \<forall>od. CtOrdersPost od \<in> set (emitted (start shop_paid) s') \<longrightarrow>
        (\<exists>latest w1. be_getCart shop_backend (Some (cart_id (shop_cart shop0)))
             (world (start shop_paid)) = (Inr (Some latest), w1) \<and>
           od_version od = cart_version latest \<and> od_cart_id od = cart_id (shop_cart shop0) \<and>
           take 2 (emitted (start shop_paid) s') =
             [CtGetCart (Some (cart_id (shop_cart shop0))), CtOrdersPost od]))"
    using order_uses_refetched_version[of shop_backend "shop_cart shop0" "start shop_paid"]
    by blast
  from after_snd[OF this] posted
  have "\<exists>latest w1. be_getCart shop_backend (Some (cart_id (shop_cart shop0)))
             (world (start shop_paid)) = (Inr (Some latest), w1) \<and>
           od_version ?od = cart_version latest"
    by blast
  then have "\<exists>latest w1. be_getCart shop_backend (Some ''cart-1'') shop_paid =
               (Inr (Some latest), w1) \<and> od_version ?od = cart_version latest"
    by (simp add: shop0_def start_def)
  moreover have "cart_version (shop_cart shop0) = 1" "od_version ?od = 2"
    by (simp_all add: shop0_def)
  ultimately show ?thesis
    using posted by blast
qed

section \<open>Settling twice creates two payment records\<close>













section \<open>Settlement without a cart\<close>

lemma settle_without_cart_id:
  assumes "\<not> truthy (getCartIdFromContext ctx)"
  shows "after (capturePayPalOrder_checked (paypalService_of be) (paymentSDK_of be) ctx cfg oid) s
     (\<lambda>x s'. x = Inl (new_Error ''Cart ID not found in context'') \<and>
        filter is_backend_call (emitted s s') = [] \<and>
        filter is_createPayment (emitted s s') = [] \<and> world s' = world s)"
  using assms
  by (simp add: capturePayPalOrder_checked_def after_simps backend_stubs emitted_def
      is_backend_call_def)

lemma settle_without_cart:
  assumes "getCartIdFromContext ctx = Some cartId" "cartId \<noteq> []"
    and "be_getCart be (Some cartId) (world s) = (Inr None, w1)"
  shows "after (capturePayPalOrder_checked (paypalService_of be) (paymentSDK_of be) ctx cfg oid) s
     (\<lambda>x s'. x = Inl (new_Error (''Cart not found: '' @ cartId)) \<and>
        filter is_backend_call (emitted s s') = [CtGetCart (Some cartId)] \<and>
        filter is_createPayment (emitted s s') = [] \<and> world s' = w1)"
  using assms
  by (simp add: capturePayPalOrder_checked_def after_simps backend_stubs emitted_def
      is_backend_call_def truthy_def or_default_def)

lemma settle_cart_fetch_rejected:
  assumes "getCartIdFromContext ctx = Some cartId" "cartId \<noteq> []"
    and "be_getCart be (Some cartId) (world s) = (Inl e, w1)"
  shows "after (capturePayPalOrder_checked (paypalService_of be) (paymentSDK_of be) ctx cfg oid) s
     (\<lambda>x s'. x = Inl e \<and>
        filter is_backend_call (emitted s s') = [CtGetCart (Some cartId)] \<and> world s' = w1)"
  using assms
  by (simp add: capturePayPalOrder_checked_def after_simps backend_stubs emitted_def
      is_backend_call_def truthy_def or_default_def)

text \<open>The service of \<^verbatim>\<open>paypal-payment.service.ts\<close> has neither check: it hands the cart id
  of the context to the cart service as it is, absent or not.\<close>

lemma settle_unchecked_rejected:
  assumes "be_getCart be (getCartIdFromContext ctx) (world s) = (Inl e, w1)"
  shows "after (capturePayPalOrder (paypalService_of be) (paymentSDK_of be) ctx cfg oid) s
     (\<lambda>x s'. x = Inl e \<and>
        filter is_backend_call (emitted s s') = [CtGetCart (getCartIdFromContext ctx)] \<and>
        filter is_createPayment (emitted s s') = [] \<and> world s' = w1)"
  using assms
  by (simp add: capturePayPalOrder_def after_simps backend_stubs emitted_def
      is_backend_call_def)

lemma settle_unchecked_null:
  assumes "be_getCart be (getCartIdFromContext ctx) (world s) = (Inr None, w1)"
    and "be_getPaymentAmount be None w1 = (r, w2)"
  shows "after (capturePayPalOrder (paypalService_of be) (paymentSDK_of be) ctx cfg oid) s
     (\<lambda>x s'. x = (case r of Inl e \<Rightarrow> Inl e | Inr a \<Rightarrow> Inl (null_TypeError ''customerId'')) \<and>
        filter is_backend_call (emitted s s') =
          [CtGetCart (getCartIdFromContext ctx), CtGetPaymentAmount None] \<and>
        filter is_createPayment (emitted s s') = [] \<and> world s' = w2)"
  using assms
  by (cases r)
     (simp_all add: capturePayPalOrder_def after_simps backend_stubs emitted_def
        is_backend_call_def)

text \<open>
  Claim C7, as amended. \<^verbatim>\<open>capturePayPalOrder\<close> creates no backend payment record when
  there is no cart to settle, and fails. The service of \<^verbatim>\<open>paypal-payment.service.ts\<close>
  makes no check of its own: it hands the cart id of the request context to the cart
  service as it is; when that fetch is rejected it fails with the error of the fetch, the
  fetch being its only backend call, and when the fetch yields no cart it goes on to ask
  for the payment amount and then fails with the error of that call or, when that call
  answers, with the \<^verbatim>\<open>TypeError\<close> raised at \<^verbatim>\<open>cart.customerId\<close>, before any payment
  creation is requested. The variant of the service that checks its context fails with
  the error \<^verbatim>\<open>Cart ID not found in context\<close> when the request context holds no cart id
  (none, or the empty string), having made no backend call at all, and with the error
  \<^verbatim>\<open>Cart not found: <id>\<close> when the backend answers the cart fetch with no cart, the fetch
  being its only backend call.
\<close>

theorem settle_fails_without_cart:
  "(be_getCart be (getCartIdFromContext ctx) (world s) = (Inl e, w1) \<longrightarrow>
      after (capturePayPalOrder (paypalService_of be) (paymentSDK_of be) ctx cfg oid) s
        (\<lambda>x s'. x = Inl e \<and>
           filter is_backend_call (emitted s s') = [CtGetCart (getCartIdFromContext ctx)] \<and>
           filter is_createPayment (emitted s s') = [] \<and> world s' = w1)) \<and>
   (be_getCart be (getCartIdFromContext ctx) (world s) = (Inr None, w1) \<and>
    be_getPaymentAmount be None w1 = (r, w2) \<longrightarrow>
      after (capturePayPalOrder (paypalService_of be) (paymentSDK_of be) ctx cfg oid) s
        (\<lambda>x s'. x = (case r of Inl e \<Rightarrow> Inl e
                            | Inr a \<Rightarrow> Inl (null_TypeError ''customerId'')) \<and>
           filter is_backend_call (emitted s s') =
             [CtGetCart (getCartIdFromContext ctx), CtGetPaymentAmount None] \<and>
           filter is_createPayment (emitted s s') = [] \<and> world s' = w2)) \<and>
   (\<not> truthy (getCartIdFromContext ctx) \<longrightarrow>
      after (capturePayPalOrder_checked (paypalService_of be) (paymentSDK_of be) ctx cfg oid) s
        (\<lambda>x s'. x = Inl (new_Error ''Cart ID not found in context'') \<and>
           filter is_backend_call (emitted s s') = [] \<and>
           filter is_createPayment (emitted s s') = [] \<and> world s' = world s)) \<and>
   (getCartIdFromContext ctx = Some cartId \<and> cartId \<noteq> [] \<and>
    be_getCart be (Some cartId) (world s) = (Inr None, w1) \<longrightarrow>
      after (capturePayPalOrder_checked (paypalService_of be) (paymentSDK_of be) ctx cfg oid) s
        (\<lambda>x s'. x = Inl (new_Error (''Cart not found: '' @ cartId)) \<and>
           filter is_backend_call (emitted s s') = [CtGetCart (Some cartId)] \<and>
           filter is_createPayment (emitted s s') = [] \<and> world s' = w1))"
  using settle_unchecked_rejected[of be ctx s e w1 cfg oid]
    settle_unchecked_null[of be ctx s w1 r w2 cfg oid]
    settle_without_cart_id[of ctx be cfg oid s]
    settle_without_cart[of ctx cartId be s w1 cfg oid]
  by blast

text \<open>Four runs against the shop: the service and its checking variant, each once with a
  request context that holds no cart id and once with a backend that answers the cart
  fetch with no cart.\<close>

lemma unchecked_without_id_run:
  "capturePayPalOrder (paypalService_of shop_backend) (paymentSDK_of shop_backend)
      ctx_without_cart cfg0 ''EC-1'' (start shop0) =
     (Inl not_found,
      \<lparr>world = shop0,
       trace = [CtGetCart None,
                Log ''error'' ''Error recording PayPal payment in commercetools'']\<rparr>)"
  by (simp add: capturePayPalOrder_def run_defs backend_stubs shop_backend_def
      ctx_without_cart_def ctx0_def start_def shop0_def)

lemma unchecked_without_cart_run:
  "capturePayPalOrder (paypalService_of shop_without_cart) (paymentSDK_of shop_without_cart)
      ctx0 cfg0 ''EC-1'' (start shop0) =
     (Inl (null_TypeError ''customerId''),
      \<lparr>world = shop0,
       trace = [CtGetCart (Some ''cart-1''), CtGetPaymentAmount None,
                Log ''error'' ''Error recording PayPal payment in commercetools'']\<rparr>)"
  by (simp add: capturePayPalOrder_def run_defs backend_stubs shop_without_cart_def
      shop_backend_def ctx0_def start_def)

theorem settle_fails_without_cart_witness:
  "be_getCart shop_backend (getCartIdFromContext ctx_without_cart) shop0 = (Inl not_found, shop0) \<and>
   fst (capturePayPalOrder (paypalService_of shop_backend) (paymentSDK_of shop_backend)
          ctx_without_cart cfg0 ''EC-1'' (start shop0)) = Inl not_found \<and>
   be_getCart shop_without_cart (getCartIdFromContext ctx0) shop0 = (Inr None, shop0) \<and>
   be_getPaymentAmount shop_without_cart None shop0 = (Inr (shop_total shop0), shop0) \<and>
   fst (capturePayPalOrder (paypalService_of shop_without_cart)
          (paymentSDK_of shop_without_cart) ctx0 cfg0 ''EC-1'' (start shop0)) =
     Inl (null_TypeError ''customerId'') \<and>
   \<not> truthy (getCartIdFromContext ctx_without_cart) \<and>
   fst (capturePayPalOrder_checked (paypalService_of shop_backend) (paymentSDK_of shop_backend)
          ctx_without_cart cfg0 ''EC-1'' (start shop0)) =
     Inl (new_Error ''Cart ID not found in context'') \<and>
   getCartIdFromContext ctx0 = Some ''cart-1'' \<and>
   be_getCart shop_without_cart (Some ''cart-1'') shop0 = (Inr None, shop0) \<and>
   fst (capturePayPalOrder_checked (paypalService_of shop_without_cart)
          (paymentSDK_of shop_without_cart) ctx0 cfg0 ''EC-1'' (start shop0)) =
     Inl (new_Error ''Cart not found: cart-1'') \<and>
   shop_payments (world (snd (capturePayPalOrder_checked (paypalService_of shop_without_cart)
          (paymentSDK_of shop_without_cart) ctx0 cfg0 ''EC-1'' (start shop0)))) = []"
proof -
  have no_id: "\<not> truthy (getCartIdFromContext ctx_without_cart)"
    by (simp add: ctx_without_cart_def ctx0_def truthy_def)
  have id: "getCartIdFromContext ctx0 = Some ''cart-1''"
    by (simp add: ctx0_def)
  have rejected: "be_getCart shop_backend (getCartIdFromContext ctx_without_cart)
                    (world (start shop0)) = (Inl not_found, shop0)"
    by (simp add: shop_backend_def ctx_without_cart_def ctx0_def start_def)
  have none: "be_getCart shop_without_cart (Some ''cart-1'') (world (start shop0)) =
                (Inr None, shop0)"
    by (simp add: shop_without_cart_def start_def)
  have amount: "be_getPaymentAmount shop_without_cart None shop0 = (Inr (shop_total shop0), shop0)"
    by (simp add: shop_without_cart_def shop_backend_def)
  have none': "be_getCart shop_without_cart (getCartIdFromContext ctx0) (world (start shop0)) =
                (Inr None, shop0)"
    using none id by simp
  have "after (capturePayPalOrder (paypalService_of shop_backend) (paymentSDK_of shop_backend)
          ctx_without_cart cfg0 ''EC-1'') (start shop0)
        (\<lambda>x s'. x = Inl not_found \<and>
           filter is_backend_call (emitted (start shop0) s') =
             [CtGetCart (getCartIdFromContext ctx_without_cart)] \<and>
           filter is_createPayment (emitted (start shop0) s') = [] \<and> world s' = shop0)"
    using settle_fails_without_cart[where ctx = ctx_without_cart and be = shop_backend
        and cfg = cfg0 and oid = "''EC-1''" and s = "start shop0" and e = not_found
        and ?w1.0 = shop0 and r = "Inl not_found" and ?w2.0 = shop0 and cartId = "[]"]
      rejected
    by blast
  from after_snd[OF this]
  have u1: "fst (capturePayPalOrder (paypalService_of shop_backend) (paymentSDK_of shop_backend)
          ctx_without_cart cfg0 ''EC-1'' (start shop0)) = Inl not_found"
    by simp
  have "after (capturePayPalOrder (paypalService_of shop_without_cart)
          (paymentSDK_of shop_without_cart) ctx0 cfg0 ''EC-1'') (start shop0)
        (\<lambda>x s'. x = (case (Inr (shop_total shop0) :: js_error + money) of
                        Inl e \<Rightarrow> Inl e
                      | Inr a \<Rightarrow> Inl (null_TypeError ''customerId'')) \<and>
           filter is_backend_call (emitted (start shop0) s') =
             [CtGetCart (getCartIdFromContext ctx0), CtGetPaymentAmount None] \<and>
           filter is_createPayment (emitted (start shop0) s') = [] \<and> world s' = shop0)"
    using settle_fails_without_cart[where ctx = ctx0 and be = shop_without_cart
        and cfg = cfg0 and oid = "''EC-1''" and s = "start shop0" and e = not_found
        and ?w1.0 = shop0 and r = "Inr (shop_total shop0)" and ?w2.0 = shop0
        and cartId = "''cart-1''"]
      none' amount
    by blast
  from after_snd[OF this]
  have u2: "fst (capturePayPalOrder (paypalService_of shop_without_cart)
          (paymentSDK_of shop_without_cart) ctx0 cfg0 ''EC-1'' (start shop0)) =
     Inl (null_TypeError ''customerId'')"
    by simp
  have "after (capturePayPalOrder_checked (paypalService_of shop_backend)
          (paymentSDK_of shop_backend) ctx_without_cart cfg0 ''EC-1'') (start shop0)
        (\<lambda>x s'. x = Inl (new_Error ''Cart ID not found in context'') \<and>
           filter is_backend_call (emitted (start shop0) s') = [] \<and>
           filter is_createPayment (emitted (start shop0) s') = [] \<and>
           world s' = world (start shop0))"
    using settle_fails_without_cart[where ctx = ctx_without_cart and be = shop_backend
        and cfg = cfg0 and oid = "''EC-1''" and s = "start shop0" and e = not_found
        and ?w1.0 = shop0 and r = "Inl not_found" and ?w2.0 = shop0 and cartId = "[]"]
      no_id
    by blast
  from after_snd[OF this]
  have first: "fst (capturePayPalOrder_checked (paypalService_of shop_backend)
          (paymentSDK_of shop_backend) ctx_without_cart cfg0 ''EC-1'' (start shop0)) =
     Inl (new_Error ''Cart ID not found in context'')"
    by simp
  have "after (capturePayPalOrder_checked (paypalService_of shop_without_cart)
          (paymentSDK_of shop_without_cart) ctx0 cfg0 ''EC-1'') (start shop0)
        (\<lambda>x s'. x = Inl (new_Error (''Cart not found: '' @ ''cart-1'')) \<and>
           filter is_backend_call (emitted (start shop0) s') = [CtGetCart (Some ''cart-1'')] \<and>
           filter is_createPayment (emitted (start shop0) s') = [] \<and> world s' = shop0)"
    using settle_fails_without_cart[where ctx = ctx0 and be = shop_without_cart
        and cfg = cfg0 and oid = "''EC-1''" and s = "start shop0" and e = not_found
        and ?w1.0 = shop0 and r = "Inr (shop_total shop0)" and ?w2.0 = shop0
        and cartId = "''cart-1''"]
      id none
    by blast
  from after_snd[OF this]
  have second: "fst (capturePayPalOrder_checked (paypalService_of shop_without_cart)
          (paymentSDK_of shop_without_cart) ctx0 cfg0 ''EC-1'' (start shop0)) =
     Inl (new_Error (''Cart not found: '' @ ''cart-1'')) \<and>
     world (snd (capturePayPalOrder_checked (paypalService_of shop_without_cart)
          (paymentSDK_of shop_without_cart) ctx0 cfg0 ''EC-1'' (start shop0))) = shop0"
    by simp
  show ?thesis
    using no_id id rejected none amount u1 u2 first second by (simp add: start_def shop0_def)
qed

text \<open>
  The claim as the specification states it fails on the service of
  \<^verbatim>\<open>paypal-payment.service.ts\<close>. With a request context that holds no cart id, the
  service does not stop at the context: it asks the backend for the cart with the
  absent id and fails with the backend's error, here \<open>not_found\<close>, not with a context
  error. With a backend that answers the cart fetch with no cart, it asks for the
  payment amount as well and fails with a \<^verbatim>\<open>TypeError\<close>, not with a not-found error.
\<close>

theorem settle_unchecked_counterexample:
  "getCartIdFromContext ctx_without_cart = None \<and>
   fst (capturePayPalOrder (paypalService_of shop_backend) (paymentSDK_of shop_backend)
          ctx_without_cart cfg0 ''EC-1'' (start shop0)) = Inl not_found \<and>
   not_found \<noteq> new_Error ''Cart ID not found in context'' \<and>
   filter is_backend_call (emitted (start shop0)
      (snd (capturePayPalOrder (paypalService_of shop_backend) (paymentSDK_of shop_backend)
              ctx_without_cart cfg0 ''EC-1'' (start shop0)))) = [CtGetCart None] \<and>
   be_getCart shop_without_cart (Some ''cart-1'') shop0 = (Inr None, shop0) \<and>
   fst (capturePayPalOrder (paypalService_of shop_without_cart)
          (paymentSDK_of shop_without_cart) ctx0 cfg0 ''EC-1'' (start shop0)) =
     Inl (null_TypeError ''customerId'') \<and>
   err_name (null_TypeError ''customerId'') = ''TypeError'' \<and>
   null_TypeError ''customerId'' \<noteq> new_Error ''Cart not found: cart-1'' \<and>
   filter is_backend_call (emitted (start shop0)
      (snd (capturePayPalOrder (paypalService_of shop_without_cart)
              (paymentSDK_of shop_without_cart) ctx0 cfg0 ''EC-1'' (start shop0)))) =
     [CtGetCart (Some ''cart-1''), CtGetPaymentAmount None]"
proof -
  have no_id: "getCartIdFromContext ctx_without_cart = None"
    by (simp add: ctx_without_cart_def ctx0_def)
  have other1: "not_found \<noteq> new_Error ''Cart ID not found in context''"
    by (simp add: not_found_def new_Error_def)
  have none: "be_getCart shop_without_cart (Some ''cart-1'') shop0 = (Inr None, shop0)"
    by (simp add: shop_without_cart_def)
  have kind: "err_name (null_TypeError ''customerId'') = ''TypeError''"
    and other2: "null_TypeError ''customerId'' \<noteq> new_Error ''Cart not found: cart-1''"
    by (simp_all add: null_TypeError_def new_Error_def)
  have calls1: "filter is_backend_call (emitted (start shop0)
      (snd (capturePayPalOrder (paypalService_of shop_backend) (paymentSDK_of shop_backend)
              ctx_without_cart cfg0 ''EC-1'' (start shop0)))) = [CtGetCart None]"
    unfolding unchecked_without_id_run
    by (simp add: emitted_def start_def is_backend_call_def)
  have calls2: "filter is_backend_call (emitted (start shop0)
      (snd (capturePayPalOrder (paypalService_of shop_without_cart)
              (paymentSDK_of shop_without_cart) ctx0 cfg0 ''EC-1'' (start shop0)))) =
     [CtGetCart (Some ''cart-1''), CtGetPaymentAmount None]"
    unfolding unchecked_without_cart_run
    by (simp add: emitted_def start_def is_backend_call_def)
  have res1: "fst (capturePayPalOrder (paypalService_of shop_backend) (paymentSDK_of shop_backend)
          ctx_without_cart cfg0 ''EC-1'' (start shop0)) = Inl not_found"
    unfolding unchecked_without_id_run by simp
  have res2: "fst (capturePayPalOrder (paypalService_of shop_without_cart)
          (paymentSDK_of shop_without_cart) ctx0 cfg0 ''EC-1'' (start shop0)) =
     Inl (null_TypeError ''customerId'')"
    unfolding unchecked_without_cart_run by simp
  show ?thesis
    using no_id other1 none kind other2 calls1 calls2 res1 res2 by blast
qed

section \<open>The payment flows: one sequence, one callback\<close>

lemma submit_alt:
  "submit this =
     try_catch
       (then_do (elements_submit this) (\<lambda>res.
          case submit_error res of Some e \<Rightarrow> throw e | None \<Rightarrow> submit_switch this))
       (\<lambda>error. opt_call (onError this) error)"
  unfolding submit_def submit_switch_def by (rule refl)

lemmas flow_defs =
  submit_def createPayment_def createSubscription_def createSetupIntent_def

lemmas scripted_defs =
  scripted_processor_def scripted_provider_def listening_page_def silent_page_def
  faulty_page_def rejecting_provider_def offline_provider_def offline_processor_def
  payment_ref_1_def answer_with_def reject_with_def start_def

text \<open>
  Claim C3. In payment mode, when input submission passes, the backend answers the
  request for a payment reference with \<^verbatim>\<open>paymentReference: "pr_1"\<close> and
  \<^verbatim>\<open>clientSecret: "cs_1"\<close>, the provider confirms with \<^verbatim>\<open>id: "pi_1"\<close> and the backend accepts
  the confirmation, \<^verbatim>\<open>submit\<close> makes, in this order, the input submission, the request for
  the payment reference, the client-side confirmation of that very reference, the backend
  confirm call with exactly \<^verbatim>\<open>{paymentIntentId: "pi_1", paymentReference: "pr_1"}\<close>, and the
  completion callback with exactly
  \<^verbatim>\<open>{isSuccess: true, paymentReference: "pr_1", paymentIntent: "pi_1"}\<close>; the completion
  callback is invoked that once.
\<close>

theorem payment_scenario:
  assumes "pv_elements_submit pv (world s) = (Inr \<lparr>submit_error = None\<rparr>, w1)"
    and "pa_getPayment pa w1 = (Inr paymentRes, w2)"
    and "pr_paymentReference paymentRes = ''pr_1''" "pr_clientSecret paymentRes = Some ''cs_1''"
    and "pv_confirmPayment pv paymentRes w2 = (Inr intent, w3)" "intent_id intent = ''pi_1''"
    and "pa_confirmPaymentIntent pa
           \<lparr>cpi_paymentIntentId = ''pi_1'', cpi_paymentReference = ''pr_1''\<rparr> w3 = (Inr (), w4)"
    and "page_onComplete pg = Some c"
  shows "after (submit (flows_of pa pv pg Mode_payment)) s
     (\<lambda>x s'. take 5 (emitted s s') =
        [ElementsSubmit, ApiGetPayment, StripeConfirmPayment paymentRes,
         ApiConfirmPaymentIntent \<lparr>cpi_paymentIntentId = ''pi_1'', cpi_paymentReference = ''pr_1''\<rparr>,
         OnComplete \<lparr>isSuccess = True, res_paymentReference = Some ''pr_1'',
                     res_paymentIntent = ''pi_1'', res_orderId = None, res_orderNumber = None\<rparr>] \<and>
        filter is_onComplete (emitted s s') =
        [OnComplete \<lparr>isSuccess = True, res_paymentReference = Some ''pr_1'',
                     res_paymentIntent = ''pi_1'', res_orderId = None, res_orderNumber = None\<rparr>])"
  using assms
  by (simp add: flow_defs after_simps client_stubs emitted_def
      split: prod.split sum.split option.split)

theorem payment_scenario_witness:
  "pv_elements_submit scripted_provider () = (Inr \<lparr>submit_error = None\<rparr>, ()) \<and>
   pa_getPayment scripted_processor () = (Inr payment_ref_1, ()) \<and>
   pr_paymentReference payment_ref_1 = ''pr_1'' \<and> pr_clientSecret payment_ref_1 = Some ''cs_1'' \<and>
   pv_confirmPayment scripted_provider payment_ref_1 () = (Inr \<lparr>intent_id = ''pi_1''\<rparr>, ()) \<and>
   pa_confirmPaymentIntent scripted_processor
      \<lparr>cpi_paymentIntentId = ''pi_1'', cpi_paymentReference = ''pr_1''\<rparr> () = (Inr (), ()) \<and>
   take 5 (emitted (start ())
       (snd (submit (flows_of scripted_processor scripted_provider listening_page Mode_payment)
              (start ())))) =
     [ElementsSubmit, ApiGetPayment, StripeConfirmPayment payment_ref_1,
      ApiConfirmPaymentIntent \<lparr>cpi_paymentIntentId = ''pi_1'', cpi_paymentReference = ''pr_1''\<rparr>,
      OnComplete \<lparr>isSuccess = True, res_paymentReference = Some ''pr_1'',
                  res_paymentIntent = ''pi_1'', res_orderId = None, res_orderNumber = None\<rparr>]"
proof -
  have h1: "pv_elements_submit scripted_provider (world (start ())) =
              (Inr \<lparr>submit_error = None\<rparr>, ())"
    and h2: "pa_getPayment scripted_processor () = (Inr payment_ref_1, ())"
    and h3: "pr_paymentReference payment_ref_1 = ''pr_1''"
    and h4: "pr_clientSecret payment_ref_1 = Some ''cs_1''"
    and h5: "pv_confirmPayment scripted_provider payment_ref_1 () = (Inr \<lparr>intent_id = ''pi_1''\<rparr>, ())"
    and h6: "intent_id \<lparr>intent_id = ''pi_1''\<rparr> = ''pi_1''"
    and h7: "pa_confirmPaymentIntent scripted_processor
               \<lparr>cpi_paymentIntentId = ''pi_1'', cpi_paymentReference = ''pr_1''\<rparr> () = (Inr (), ())"
    and h8: "page_onComplete listening_page = Some (\<lambda>r. answer_with ())"
    by (simp_all add: scripted_defs)
  from after_snd[OF payment_scenario[OF h1 h2 h3 h4 h5 h6 h7 h8]] h1 h2 h3 h4 h5 h7
  show ?thesis
    by (simp add: start_def)
qed

lemma one_callback:
  assumes both: "page_onComplete pg = Some c" "page_onError pg = Some h"
    and normal: "\<And>r w. fst (c r w) = Inr ()"
  shows "after (submit (flows_of pa pv pg mode)) s
     (\<lambda>x s'. length (filter is_callback (emitted s s')) = 1 \<and>
        (\<exists>rest. mode_sequence mode = api_calls (emitted s s') @ rest) \<and>
        ((\<exists>r. OnComplete r \<in> set (emitted s s')) \<longrightarrow>
           api_calls (emitted s s') = mode_sequence mode))"
proof -
  have returns: "\<And>r w x w'. (c r w = (x, w')) = (x = Inr () \<and> w' = snd (c r w))"
    using normal by (metis fst_conv snd_conv prod.collapse)
  show ?thesis
    using both
    by (cases mode)
      (simp_all add: flow_defs after_simps client_stubs emitted_def is_callback_def
        api_calls_def map_filter_simps returns split: prod.split sum.split option.split)
qed

lemma wallet_callbacks:
  "after (createPayPalPayment (flows_of pa pv pg mode) window oid) s
     (\<lambda>x s'. length (filter is_onComplete (emitted s s')) \<le> 1 \<and>
              length (filter is_onError (emitted s s')) \<le> 1)"
  by (simp add: createPayPalPayment_def after_simps client_stubs emitted_def
        split: prod.split sum.split option.split)

text \<open>
  Claim C2, as amended. For every payment mode, when the page supplies both callbacks and
  its completion callback returns normally, one \<^verbatim>\<open>submit\<close> invokes exactly one callback,
  once; its backend requests are an initial part of the sequence of its mode, and the
  whole sequence whenever the completion callback is invoked. On the alternative-wallet
  path \<^verbatim>\<open>createPayPalPayment\<close> invokes the completion callback at most once and the error
  callback at most once, whatever the page supplies.
\<close>

theorem submit_one_callback:
  assumes "page_onComplete pg = Some c" "page_onError pg = Some h"
    and "\<And>r w. fst (c r w) = Inr ()"
  shows "after (submit (flows_of pa pv pg mode)) s
     (\<lambda>x s'. length (filter is_callback (emitted s s')) = 1 \<and>
        (\<exists>rest. mode_sequence mode = api_calls (emitted s s') @ rest) \<and>
        ((\<exists>r. OnComplete r \<in> set (emitted s s')) \<longrightarrow>
           api_calls (emitted s s') = mode_sequence mode)) \<and>
   after (createPayPalPayment (flows_of pa' pv' pg' mode') window oid) s
     (\<lambda>x s'. length (filter is_onComplete (emitted s s')) \<le> 1 \<and>
              length (filter is_onError (emitted s s')) \<le> 1)"
  using one_callback[OF assms] wallet_callbacks by blast

theorem submit_one_callback_witness:
  "page_onComplete (listening_page :: unit page) = Some (\<lambda>r. answer_with ()) \<and>
   page_onError (listening_page :: unit page) = Some (\<lambda>e. answer_with ()) \<and>
   (\<forall>w :: unit. fst (answer_with () w) = (Inr () :: js_error + unit)) \<and>
   OnComplete \<lparr>isSuccess = True, res_paymentReference = Some ''pr_2'',
               res_paymentIntent = ''seti_1'', res_orderId = None, res_orderNumber = None\<rparr>
     \<in> set (emitted (start ())
          (snd (submit (flows_of scripted_processor scripted_provider listening_page Mode_setup)
                 (start ())))) \<and>
   length (filter is_callback (emitted (start ())
          (snd (submit (flows_of scripted_processor scripted_provider listening_page Mode_setup)
                 (start ()))))) = 1 \<and>
   api_calls (emitted (start ())
          (snd (submit (flows_of scripted_processor scripted_provider listening_page Mode_setup)
                 (start ())))) = mode_sequence Mode_setup"
proof -
  let ?s' = "snd (submit (flows_of scripted_processor scripted_provider listening_page Mode_setup)
                 (start ()))"
  have h1: "page_onComplete (listening_page :: unit page) = Some (\<lambda>r. answer_with ())"
    and h2: "page_onError (listening_page :: unit page) = Some (\<lambda>e. answer_with ())"
    by (simp_all add: listening_page_def)
  have h3: "\<And>(r :: payment_result) (w :: unit).
              fst ((\<lambda>r. answer_with ()) r w) = (Inr () :: js_error + unit)"
    by (simp add: answer_with_def)
  have completed:
    "OnComplete \<lparr>isSuccess = True, res_paymentReference = Some ''pr_2'',
               res_paymentIntent = ''seti_1'', res_orderId = None, res_orderNumber = None\<rparr>
     \<in> set (emitted (start ()) ?s')"
    by (simp add: flow_defs run_defs client_stubs scripted_defs emitted_def)
  have "after (submit (flows_of scripted_processor scripted_provider listening_page Mode_setup))
          (start ())
     (\<lambda>x s'. length (filter is_callback (emitted (start ()) s')) = 1 \<and>
        (\<exists>rest. mode_sequence Mode_setup = api_calls (emitted (start ()) s') @ rest) \<and>
        ((\<exists>r. OnComplete r \<in> set (emitted (start ()) s')) \<longrightarrow>
           api_calls (emitted (start ()) s') = mode_sequence Mode_setup))"
    using submit_one_callback[OF h1 h2 h3] by blast
  from after_snd[OF this] completed
  have "length (filter is_callback (emitted (start ()) ?s')) = 1"
    and "api_calls (emitted (start ()) ?s') = mode_sequence Mode_setup"
    by blast+
  moreover have "\<forall>w :: unit. fst (answer_with () w) = (Inr () :: js_error + unit)"
    by (simp add: answer_with_def)
  ultimately show ?thesis
    using h1 h2 completed by blast
qed

text \<open>
  The claim as the specification states it fails: with a page that supplies no callback,
  a successful \<^verbatim>\<open>submit\<close> in payment mode invokes neither callback; with a page whose
  completion callback raises, the same \<^verbatim>\<open>submit\<close> invokes the completion callback and
  then, the exception being caught at the top level, the error callback as well; and
  when the input submission reports an error, no backend request of the mode's sequence
  is made.
\<close>

theorem submit_callbacks_counterexample:
  "api_calls (emitted (start ())
      (snd (submit (flows_of scripted_processor scripted_provider silent_page Mode_payment)
             (start ())))) = mode_sequence Mode_payment \<and>
   filter is_callback (emitted (start ())
      (snd (submit (flows_of scripted_processor scripted_provider silent_page Mode_payment)
             (start ())))) = [] \<and>
   filter is_callback (emitted (start ())
      (snd (submit (flows_of scripted_processor scripted_provider faulty_page Mode_payment)
             (start ())))) =
     [OnComplete \<lparr>isSuccess = True, res_paymentReference = Some ''pr_1'',
                  res_paymentIntent = ''pi_1'', res_orderId = None, res_orderNumber = None\<rparr>,
      OnError (new_Error ''render failed'')] \<and>
   api_calls (emitted (start ())
      (snd (submit (flows_of scripted_processor rejecting_provider listening_page Mode_payment)
             (start ())))) = []"
  by (simp add: flow_defs run_defs client_stubs scripted_defs emitted_def is_callback_def
      api_calls_def map_filter_simps)

section \<open>The payment flows: failures reach the error callback once\<close>

lemma input_error_aborts:
  assumes "page_onError pg = Some h"
    and "pv_elements_submit pv (world s) = (Inr res, w1)" "submit_error res = Some e"
  shows "after (submit (flows_of pa pv pg mode)) s
           (\<lambda>x s'. emitted s s' = [ElementsSubmit, OnError e])"
  using assms
  by (simp add: submit_alt after_simps client_stubs emitted_def split: prod.split)

lemma input_rejection_routed:
  assumes "page_onError pg = Some h"
    and "pv_elements_submit pv (world s) = (Inl e, w1)"
  shows "after (submit (flows_of pa pv pg mode)) s
           (\<lambda>x s'. emitted s s' = [ElementsSubmit, OnError e])"
  using assms
  by (simp add: submit_alt after_simps client_stubs emitted_def split: prod.split)

lemma switch_failure_routed:
  assumes "page_onError pg = Some h"
    and "pv_elements_submit pv (world s) = (Inr res, w1)" "submit_error res = None"
    and "submit_switch (flows_of pa pv pg mode)
           (s\<lparr>world := w1, trace := trace s @ [ElementsSubmit]\<rparr>) = (Inl e, s2)"
  shows "submit (flows_of pa pv pg mode) s = error_callback h e s2"
proof -
  have el: "elements_submit (flows_of pa pv pg mode) s
        = (Inr res, s\<lparr>world := w1, trace := trace s @ [ElementsSubmit]\<rparr>)"
    using assms(2) by (simp add: flows_of_def request_def)
  have oe: "onError (flows_of pa pv pg mode) = Some (error_callback h)"
    using assms(1) by (simp add: flows_of_def)
  show ?thesis
    using assms(3,4) by (simp add: submit_alt try_catch_def then_do_def el oe opt_call_def)
qed

lemma switch_never_catches:
  "after (submit_switch (flows_of pa pv pg mode)) s
     (\<lambda>x s'. filter is_onError (emitted s s') = [])"
  by (cases mode)
     (simp_all add: submit_switch_def createPayment_def createSubscription_def
        createSetupIntent_def after_simps client_stubs emitted_def
        split: prod.split sum.split option.split)

lemma no_retry:
  "after (submit (flows_of pa pv pg mode)) s
     (\<lambda>x s'. distinct (steps (emitted s s')) \<and> length (filter is_onError (emitted s s')) \<le> 1)"
  by (cases mode)
     (simp_all add: flow_defs after_simps client_stubs emitted_def steps_def map_filter_simps
        split: prod.split sum.split option.split)

text \<open>
  Claim C6. Let the page supply an error callback. When the provider's input submission
  reports an error, \<^verbatim>\<open>submit\<close> does nothing but submit the input and invoke the error
  callback with that error: no backend call is made. The same holds when the input
  submission itself raises. When the input passes and the sequence of the payment mode
  raises, \<^verbatim>\<open>submit\<close> ends by invoking the error callback with that exception, in the state
  the sequence left. The sequences themselves never invoke the error callback (nothing
  is caught below the top level), and in every run each step is made at most once and the
  error callback is invoked at most once.
\<close>

theorem submit_failures_routed_once:
  assumes "page_onError pg = Some h"
  shows "(\<forall>res w1 e. pv_elements_submit pv (world s) = (Inr res, w1) \<and> submit_error res = Some e \<longrightarrow>
            after (submit (flows_of pa pv pg mode)) s
              (\<lambda>x s'. emitted s s' = [ElementsSubmit, OnError e])) \<and>
         (\<forall>w1 e. pv_elements_submit pv (world s) = (Inl e, w1) \<longrightarrow>
            after (submit (flows_of pa pv pg mode)) s
              (\<lambda>x s'. emitted s s' = [ElementsSubmit, OnError e])) \<and>
         (\<forall>res w1 e s2. pv_elements_submit pv (world s) = (Inr res, w1) \<and> submit_error res = None \<and>
            submit_switch (flows_of pa pv pg mode)
              (s\<lparr>world := w1, trace := trace s @ [ElementsSubmit]\<rparr>) = (Inl e, s2) \<longrightarrow>
            submit (flows_of pa pv pg mode) s = error_callback h e s2) \<and>
         after (submit_switch (flows_of pa pv pg mode)) s
           (\<lambda>x s'. filter is_onError (emitted s s') = []) \<and>
         after (submit (flows_of pa pv pg mode)) s
           (\<lambda>x s'. distinct (steps (emitted s s')) \<and>
                    length (filter is_onError (emitted s s')) \<le> 1)"
proof (intro conjI allI impI)
  fix res w1 e
  assume "pv_elements_submit pv (world s) = (Inr res, w1) \<and> submit_error res = Some e"
  then show "after (submit (flows_of pa pv pg mode)) s
              (\<lambda>x s'. emitted s s' = [ElementsSubmit, OnError e])"
    using input_error_aborts[OF assms] by blast
next
  fix w1 e
  assume "pv_elements_submit pv (world s) = (Inl e, w1)"
  then show "after (submit (flows_of pa pv pg mode)) s
              (\<lambda>x s'. emitted s s' = [ElementsSubmit, OnError e])"
    by (rule input_rejection_routed[OF assms])
next
  fix res w1 e s2
  assume "pv_elements_submit pv (world s) = (Inr res, w1) \<and> submit_error res = None \<and>
            submit_switch (flows_of pa pv pg mode)
              (s\<lparr>world := w1, trace := trace s @ [ElementsSubmit]\<rparr>) = (Inl e, s2)"
  then show "submit (flows_of pa pv pg mode) s = error_callback h e s2"
    using switch_failure_routed[OF assms] by blast
next
  show "after (submit_switch (flows_of pa pv pg mode)) s
           (\<lambda>x s'. filter is_onError (emitted s s') = [])"
    by (rule switch_never_catches)
next
  show "after (submit (flows_of pa pv pg mode)) s
           (\<lambda>x s'. distinct (steps (emitted s s')) \<and>
                    length (filter is_onError (emitted s s')) \<le> 1)"
    by (rule no_retry)
qed

theorem submit_failures_routed_once_witness:
  "page_onError (listening_page :: unit page) = Some (\<lambda>e. answer_with ()) \<and>
   pv_elements_submit rejecting_provider () = (Inr \<lparr>submit_error = Some card_declined\<rparr>, ()) \<and>
   emitted (start ())
     (snd (submit (flows_of scripted_processor rejecting_provider listening_page Mode_payment)
            (start ()))) = [ElementsSubmit, OnError card_declined] \<and>
   pv_elements_submit offline_provider () = (Inl network_error, ()) \<and>
   emitted (start ())
     (snd (submit (flows_of scripted_processor offline_provider listening_page Mode_payment)
            (start ()))) = [ElementsSubmit, OnError network_error] \<and>
   submit_switch (flows_of offline_processor scripted_provider listening_page Mode_payment)
     \<lparr>world = (), trace = [ElementsSubmit]\<rparr> =
     (Inl network_error, \<lparr>world = (), trace = [ElementsSubmit, ApiGetPayment]\<rparr>) \<and>
   emitted (start ())
     (snd (submit (flows_of offline_processor scripted_provider listening_page Mode_payment)
            (start ()))) = [ElementsSubmit, ApiGetPayment, OnError network_error]"
proof -
  have h: "page_onError (listening_page :: unit page) = Some (\<lambda>e. answer_with ())"
    by (simp add: listening_page_def)
  have r1: "pv_elements_submit rejecting_provider (world (start ())) =
              (Inr \<lparr>submit_error = Some card_declined\<rparr>, ())"
    and r2: "pv_elements_submit offline_provider (world (start ())) = (Inl network_error, ())"
    and r3: "pv_elements_submit scripted_provider (world (start ())) =
              (Inr \<lparr>submit_error = None\<rparr>, ())"
    by (simp_all add: scripted_defs)
  have sw: "submit_switch (flows_of offline_processor scripted_provider listening_page Mode_payment)
     ((start ())\<lparr>world := (), trace := trace (start ()) @ [ElementsSubmit]\<rparr>) =
     (Inl network_error, \<lparr>world = (), trace = [ElementsSubmit, ApiGetPayment]\<rparr>)"
    by (simp add: submit_switch_def createPayment_def run_defs client_stubs scripted_defs)
  have e1: "emitted (start ())
     (snd (submit (flows_of scripted_processor rejecting_provider listening_page Mode_payment)
            (start ()))) = [ElementsSubmit, OnError card_declined]"
    using submit_failures_routed_once[OF h, where s = "start ()" and mode = Mode_payment
        and pv = rejecting_provider and pa = scripted_processor] r1
    by (auto dest!: after_snd)
  have e2: "emitted (start ())
     (snd (submit (flows_of scripted_processor offline_provider listening_page Mode_payment)
            (start ()))) = [ElementsSubmit, OnError network_error]"
    using submit_failures_routed_once[OF h, where s = "start ()" and mode = Mode_payment
        and pv = offline_provider and pa = scripted_processor] r2
    by (auto dest!: after_snd)
  have "submit (flows_of offline_processor scripted_provider listening_page Mode_payment) (start ())
        = error_callback (\<lambda>e. answer_with ()) network_error
            \<lparr>world = (), trace = [ElementsSubmit, ApiGetPayment]\<rparr>"
    using submit_failures_routed_once[OF h, where s = "start ()" and mode = Mode_payment
        and pv = scripted_provider and pa = offline_processor] r3 sw
    by auto
  then have e3: "emitted (start ())
     (snd (submit (flows_of offline_processor scripted_provider listening_page Mode_payment)
            (start ()))) = [ElementsSubmit, ApiGetPayment, OnError network_error]"
    by (simp add: error_callback_def request_def answer_with_def emitted_def start_def)
  show ?thesis
    using h r1 r2 sw e1 e2 e3 by (simp add: start_def)
qed

section \<open>The composite widget\<close>

lemma deselect_restores:
  assumes "document s ''stripe-payment-element-container'' = Some sc"
    and "document s ''paypal-button-wrapper'' = Some bw"
  shows "\<not> isPayPalSelected (deselectPayPal s) \<and>
     document (deselectPayPal s) ''stripe-payment-element-container'' =
       Some (sc\<lparr>style := (style sc)(''opacity'' \<mapsto> ''1'', ''pointerEvents'' \<mapsto> ''auto'')\<rparr>) \<and>
     document (deselectPayPal s) ''paypal-button-wrapper'' =
       Some (bw\<lparr>style := (style bw)(''display'' \<mapsto> ''none'')\<rparr>)"
  using assms
  by (simp add: deselectPayPal_def with_element_def set_style_def Let_def split: option.split)

text \<open>
  Claim C9. From any state in which the alternative wallet is the active method, and in
  which the Stripe container and the wallet's button wrapper are in the document, both
  the change event of the primary element and a click on its container make the primary
  widget the active method again, set the container's opacity to \<^verbatim>\<open>1\<close> and its
  pointer events to \<^verbatim>\<open>auto\<close>, and set the display of the wallet's button wrapper to
  \<^verbatim>\<open>none\<close>.
\<close>

theorem primary_interaction_deselects_wallet:
  assumes "isPayPalSelected s"
    and "document s ''stripe-payment-element-container'' = Some sc"
    and "document s ''paypal-button-wrapper'' = Some bw"
  shows "\<not> isPayPalSelected (on_paymentElement_change s) \<and>
     document (on_paymentElement_change s) ''stripe-payment-element-container'' =
       Some (sc\<lparr>style := (style sc)(''opacity'' \<mapsto> ''1'', ''pointerEvents'' \<mapsto> ''auto'')\<rparr>) \<and>
     document (on_paymentElement_change s) ''paypal-button-wrapper'' =
       Some (bw\<lparr>style := (style bw)(''display'' \<mapsto> ''none'')\<rparr>) \<and>
     on_stripeContainer_click s = on_paymentElement_change s"
  using assms deselect_restores[OF assms(2,3)]
  by (simp add: on_paymentElement_change_def on_stripeContainer_click_def)

lemma selected_ui:
  "isPayPalSelected (on_paypalOption_click mounted_ui) \<and>
   document (on_paypalOption_click mounted_ui) ''stripe-payment-element-container'' =
     Some \<lparr>classList = [], style = [''opacity'' \<mapsto> ''0.5'', ''pointerEvents'' \<mapsto> ''none'']\<rparr> \<and>
   document (on_paypalOption_click mounted_ui) ''paypal-button-wrapper'' =
     Some \<lparr>classList = [], style = [''display'' \<mapsto> ''block'']\<rparr>"
  by (simp add: on_paypalOption_click_def selectPayPal_def mounted_ui_def with_element_def
      set_style_def Let_def)

theorem primary_interaction_deselects_wallet_witness:
  "isPayPalSelected (on_paypalOption_click mounted_ui) \<and>
   \<not> isPayPalSelected (on_paymentElement_change (on_paypalOption_click mounted_ui)) \<and>
   document (on_paymentElement_change (on_paypalOption_click mounted_ui))
       ''stripe-payment-element-container'' =
     Some \<lparr>classList = [], style = [''opacity'' \<mapsto> ''1'', ''pointerEvents'' \<mapsto> ''auto'']\<rparr> \<and>
   document (on_stripeContainer_click (on_paypalOption_click mounted_ui))
       ''paypal-button-wrapper'' =
     Some \<lparr>classList = [], style = [''display'' \<mapsto> ''none'']\<rparr>"
  using primary_interaction_deselects_wallet[OF selected_ui[THEN conjunct1]
      selected_ui[THEN conjunct2, THEN conjunct1] selected_ui[THEN conjunct2, THEN conjunct2]]
    selected_ui
  by simp

text \<open>
  Claim C8, as amended. When the provider reports cancellation, the \<^verbatim>\<open>onCancel\<close>
  callback only writes a log line: it makes no backend call, invokes neither callback,
  and leaves the selection and the document as they are.
\<close>

theorem cancel_is_silent:
  fixes s :: "('w, 'z) ui_scheme"
  shows "after paypal_onCancel s
     (\<lambda>x s'. x = Inr () \<and> filter is_backend_call (emitted s s') = [] \<and>
        filter is_callback (emitted s s') = [] \<and>
        isPayPalSelected s' = isPayPalSelected s \<and> document s' = document s \<and>
        world s' = world s)"
  by (simp add: paypal_onCancel_def after_simps emitted_def is_backend_call_def is_callback_def)

theorem cancel_is_silent_witness:
  "isPayPalSelected (snd (paypal_onCancel (on_paypalOption_click mounted_ui))) =
     isPayPalSelected (on_paypalOption_click mounted_ui) \<and>
   filter is_callback (emitted (on_paypalOption_click mounted_ui)
      (snd (paypal_onCancel (on_paypalOption_click mounted_ui)))) = []"
  using after_snd[OF cancel_is_silent[of "on_paypalOption_click mounted_ui"]]
  by simp

text \<open>
  The claim as the specification states it fails: after the shopper has selected the
  alternative wallet in the mounted widget, a cancellation leaves the alternative wallet
  selected and the primary widget dimmed, with its pointer events blocked.
\<close>

theorem cancel_keeps_selection_counterexample:
  "isPayPalSelected (snd (paypal_onCancel (on_paypalOption_click mounted_ui))) \<and>
   document (snd (paypal_onCancel (on_paypalOption_click mounted_ui)))
       ''stripe-payment-element-container'' =
     Some \<lparr>classList = [], style = [''opacity'' \<mapsto> ''0.5'', ''pointerEvents'' \<mapsto> ''none'']\<rparr>"
  using selected_ui by (simp add: paypal_onCancel_def emit_def)

text \<open>
  Claim C10. When the fetched configuration carries an amount that is zero or negative,
  the \<^verbatim>\<open>createOrder\<close> callback makes no order-creation call to the provider: it writes two
  log lines and invokes the error callback with the error
  \<^verbatim>\<open>Cart total must be greater than zero\<close>, and that is all it does; it raises, and when
  the error callback returns normally it raises that same error.
\<close>

theorem empty_cart_creates_no_order:
  assumes "pc_amount config \<le> 0"
  shows "after (paypal_createOrder config (error_callback h) (paypalActions_of pv)) s
     (\<lambda>x s'. emitted s s' =
         [Console ''error'' ''Cart total is zero or negative, cannot create PayPal order'',
          Console ''error'' ''Error creating PayPal order:'',
          OnError (new_Error ''Cart total must be greater than zero'')] \<and>
        filter is_provider_order_create (emitted s s') = [] \<and>
        (\<exists>e. x = Inl e) \<and>
        (fst (h (new_Error ''Cart total must be greater than zero'') (world s)) = Inr () \<longrightarrow>
           x = Inl (new_Error ''Cart total must be greater than zero'')))"
  using assms
  by (simp add: paypal_createOrder_def after_simps client_stubs emitted_def Let_def
      split: prod.split sum.split)

theorem empty_cart_creates_no_order_witness:
  "pc_amount empty_cart_config \<le> 0 \<and>
   fst (answer_with () ()) = (Inr () :: js_error + unit) \<and>
   fst (paypal_createOrder empty_cart_config (error_callback (\<lambda>e. answer_with ()))
       (paypalActions_of scripted_provider) (start ())) =
     Inl (new_Error ''Cart total must be greater than zero'') \<and>
   emitted (start ())
     (snd (paypal_createOrder empty_cart_config (error_callback (\<lambda>e. answer_with ()))
       (paypalActions_of scripted_provider) (start ()))) =
     [Console ''error'' ''Cart total is zero or negative, cannot create PayPal order'',
      Console ''error'' ''Error creating PayPal order:'',
      OnError (new_Error ''Cart total must be greater than zero'')]"
proof -
  have amount: "pc_amount empty_cart_config \<le> 0"
    by (simp add: empty_cart_config_def)
  have normal: "fst (answer_with () ()) = (Inr () :: js_error + unit)"
    by (simp add: answer_with_def)
  from after_snd[OF empty_cart_creates_no_order[OF amount,
        where h = "\<lambda>e. answer_with ()" and pv = scripted_provider and s = "start ()"]]
  show ?thesis
    using amount normal by (simp add: start_def)
qed

end
